theory Spec2Isabelle
  imports Main
begin

section \<open>Result cache of the executor (\<open>UVExecutor\<close>, caching helpers)\<close>

text \<open>
  The executor keeps \<^verbatim>\<open>cache: Map<string, { value, expires }>\<close> and the constant
  \<^verbatim>\<open>cacheTTL = 1500\<close> (milliseconds). The map is a partial function from keys to
  entries; \<^verbatim>\<open>Date.now()\<close> is passed in as an integer number of milliseconds. A
  getter returns the value read (or nothing, for \<^verbatim>\<open>undefined\<close>) together with the
  cache it leaves behind.
\<close>

record 'v cache_entry =
  entry_value :: 'v
  expires :: int

type_synonym 'v cache = "string \<rightharpoonup> 'v cache_entry"

definition cacheTTL :: int where
  "cacheTTL = 1500"

definition getCached :: "string \<Rightarrow> int \<Rightarrow> 'v cache \<Rightarrow> 'v option \<times> 'v cache" where
  "getCached key now cache =
     (case cache key of
        Some entry \<Rightarrow>
          if expires entry > now then (Some (entry_value entry), cache)
          else (None, cache(key := None))
      | None \<Rightarrow> (None, cache))"

definition setCached :: "string \<Rightarrow> 'v \<Rightarrow> int \<Rightarrow> 'v cache \<Rightarrow> 'v cache" where
  "setCached key v now cache =
     cache(key \<mapsto> \<lparr>entry_value = v, expires = now + cacheTTL\<rparr>)"

definition invalidateCache :: "string \<Rightarrow> 'v cache \<Rightarrow> 'v cache" where
  "invalidateCache key cache = cache(key := None)"

definition invalidateAllCache :: "'v cache \<Rightarrow> 'v cache" where
  "invalidateAllCache cache = Map.empty"

definition invalidateAllCaches :: "'v cache \<Rightarrow> 'v cache" where
  "invalidateAllCaches cache = invalidateAllCache cache"

text \<open>
  Calls on the cache made by other callbacks between a write and a later read. The
  runtime is single threaded, so they happen one after the other.
\<close>

datatype 'v cache_call =
  GetCached string int
| SetCached string 'v int
| InvalidateCache string
| InvalidateAllCaches

fun apply_cache_call :: "'v cache_call \<Rightarrow> 'v cache \<Rightarrow> 'v cache" where
  "apply_cache_call (GetCached k now) cache = snd (getCached k now cache)"
| "apply_cache_call (SetCached k v now) cache = setCached k v now cache"
| "apply_cache_call (InvalidateCache k) cache = invalidateCache k cache"
| "apply_cache_call InvalidateAllCaches cache = invalidateAllCaches cache"

fun cache_calls :: "'v cache_call list \<Rightarrow> 'v cache \<Rightarrow> 'v cache" where
  "cache_calls [] cache = cache"
| "cache_calls (c # cs) cache = cache_calls cs (apply_cache_call c cache)"

text \<open>
  An intervening call leaves the entry of key \<open>K\<close> alone up to time \<open>t\<close> when it is a
  read made no later than \<open>t\<close> (the clock does not run backwards), or a write or an
  invalidation of another key.
\<close>

fun leaves_key :: "string \<Rightarrow> int \<Rightarrow> 'v cache_call \<Rightarrow> bool" where
  "leaves_key K t (GetCached k now) = (now \<le> t)"
| "leaves_key K t (SetCached k v now) = (k \<noteq> K)"
| "leaves_key K t (InvalidateCache k) = (k \<noteq> K)"
| "leaves_key K t InvalidateAllCaches = False"

section \<open>Strings\<close>

text \<open>
  The string operations of the host language that the code below uses:
  \<^verbatim>\<open>String.prototype.includes\<close>, \<^verbatim>\<open>toLowerCase\<close> (on ASCII letters) and the
  decimal rendering of a non-negative integer (\<^verbatim>\<open>String(port)\<close> and template
  strings). \<open>quoted\<close> puts a word between single quotes.
\<close>

fun starts_with :: "string \<Rightarrow> string \<Rightarrow> bool" where
  "starts_with s [] = True"
| "starts_with [] (p # ps) = False"
| "starts_with (c # cs) (p # ps) = (c = p \<and> starts_with cs ps)"

fun str_includes :: "string \<Rightarrow> string \<Rightarrow> bool" where
  "str_includes [] sub = (sub = [])"
| "str_includes (c # cs) sub = (starts_with (c # cs) sub \<or> str_includes cs sub)"

definition lower_char :: "char \<Rightarrow> char" where
  "lower_char c =
     (if (65::nat) \<le> of_char c \<and> (of_char c :: nat) \<le> 90
      then char_of ((of_char c :: nat) + 32) else c)"

definition toLowerCase :: "string \<Rightarrow> string" where
  "toLowerCase s = map lower_char s"

fun string_of_nat :: "nat \<Rightarrow> string" where
  "string_of_nat n =
     (if n < 10 then [char_of (48 + n)]
      else string_of_nat (n div 10) @ [char_of (48 + n mod 10)])"

declare string_of_nat.simps [simp del]

definition quoted :: "string \<Rightarrow> string" where
  "quoted s = CHR 0x27 # s @ [CHR 0x27]"

section \<open>The HTTP server supervisor (\<open>HTTPServerManager\<close>)\<close>

text \<open>
  The supervisor's fields are \<open>serverProcess\<close>, \<open>running\<close>, \<open>currentPort\<close> and
  \<open>currentFolder\<close>. What it does to the outside is kept in the state as well: every
  \<^verbatim>\<open>cp.spawn\<close> call that returned a child (with the listeners attached to that
  child), every message shown to the user, the number of status-change notifications
  fired and the children it tried to kill. A child is named by its position in
  \<open>children\<close>. Lines written to the output channel are not part of the state.

  The platform (\<^verbatim>\<open>process.platform === 'win32'\<close> or not) and whether
  \<^verbatim>\<open>cp.spawn\<close> throws for a command are given by the environment. A spawn failure
  usually arrives later, as the child's \<^verbatim>\<open>'error'\<close> event; the environment may
  also make \<^verbatim>\<open>cp.spawn\<close> throw, which the code catches.
\<close>

datatype platform = Win32 | OtherPlatform

datatype err_code = ENOENT | OtherCode

record spawn_error =
  err_code :: err_code
  err_text :: string

datatype listeners =
  PrimaryListeners string string nat
| FallbackListeners nat

record child =
  child_command :: string
  child_args :: "string list"
  child_cwd :: string
  child_listeners :: listeners

datatype message =
  WarningMessage string
| ErrorMessage string
| InformationMessage string

record server_env =
  env_platform :: platform
  spawn_throws :: "string \<Rightarrow> spawn_error option"

record HTTPServerManager =
  serverProcess :: "nat option"
  running :: bool
  currentPort :: nat
  currentFolder :: string
  children :: "child list"
  messages :: "message list"
  statusChanged :: nat
  killed :: "nat list"

definition new_HTTPServerManager :: HTTPServerManager where
  "new_HTTPServerManager =
     \<lparr>serverProcess = None, running = False, currentPort = 8000, currentFolder = [],
      children = [], messages = [], statusChanged = 0, killed = []\<rparr>"

definition isRunning :: "HTTPServerManager \<Rightarrow> bool" where
  "isRunning m = running m"

definition getPort :: "HTTPServerManager \<Rightarrow> nat" where
  "getPort m = currentPort m"

definition getFolder :: "HTTPServerManager \<Rightarrow> string" where
  "getFolder m = currentFolder m"

definition showMessage :: "message \<Rightarrow> HTTPServerManager \<Rightarrow> HTTPServerManager" where
  "showMessage msg m = m\<lparr>messages := messages m @ [msg]\<rparr>"

definition fire :: "HTTPServerManager \<Rightarrow> HTTPServerManager" where
  "fire m = m\<lparr>statusChanged := Suc (statusChanged m)\<rparr>"

definition stopServer :: "HTTPServerManager \<Rightarrow> HTTPServerManager" where
  "stopServer m =
     (case serverProcess m of
        Some pid \<Rightarrow>
          if running m then
            showMessage (InformationMessage ''HTTP server stopped.'')
              (fire (m\<lparr>killed := killed m @ [pid], serverProcess := None, running := False\<rparr>))
          else showMessage (WarningMessage ''No HTTP server is running.'') m
      | None \<Rightarrow> showMessage (WarningMessage ''No HTTP server is running.'') m)"

definition failed_to_start :: "string \<Rightarrow> message" where
  "failed_to_start txt = ErrorMessage (''Failed to start HTTP server: '' @ txt)"

definition neither_found :: message where
  "neither_found = ErrorMessage
     (''Neither '' @ quoted ''python'' @ '' nor '' @ quoted ''python3'' @
      '' was found in your PATH. Please install Python 3 or add it to your PATH.'')"

definition python3_not_found :: message where
  "python3_not_found = ErrorMessage
     (quoted ''python3'' @
      '' was not found in your PATH. Please install Python 3 or add it to your PATH.'')"

definition started_on :: "nat \<Rightarrow> message" where
  "started_on port = InformationMessage
     (''HTTP server started on http://localhost:'' @ string_of_nat port @ ''/'')"

definition spawn_child :: "string \<Rightarrow> string \<Rightarrow> nat \<Rightarrow> listeners \<Rightarrow> child" where
  "spawn_child cmd folder port ls =
     \<lparr>child_command = cmd, child_args = [''-m'', ''http.server'', string_of_nat port],
      child_cwd = folder, child_listeners = ls\<rparr>"

definition tryPython3Fallback ::
  "server_env \<Rightarrow> string \<Rightarrow> nat \<Rightarrow> HTTPServerManager \<Rightarrow> bool \<times> HTTPServerManager" where
  "tryPython3Fallback env folder port m =
     (case spawn_throws env ''python3'' of
        None \<Rightarrow>
          (True,
           showMessage (started_on port)
             (fire (m\<lparr>serverProcess := Some (length (children m)),
                       children := children m @
                         [spawn_child ''python3'' folder port (FallbackListeners port)],
                       running := True\<rparr>)))
      | Some error \<Rightarrow>
          (False,
           fire ((showMessage
                    (if err_code error = ENOENT then neither_found
                     else failed_to_start (err_text error)) m)\<lparr>running := False\<rparr>)))"

definition startServer ::
  "server_env \<Rightarrow> string \<Rightarrow> nat \<Rightarrow> HTTPServerManager \<Rightarrow> bool \<times> HTTPServerManager" where
  "startServer env folder port m =
     (if running m then
        (False, showMessage (WarningMessage ''HTTP server is already running.'') m)
      else
        let m1 = m\<lparr>currentFolder := folder, currentPort := port\<rparr>;
            pythonCmd = (if env_platform env = Win32 then ''python'' else ''python3'')
        in case spawn_throws env pythonCmd of
             None \<Rightarrow>
               (True,
                showMessage (started_on port)
                  (fire (m1\<lparr>serverProcess := Some (length (children m1)),
                             children := children m1 @
                               [spawn_child pythonCmd folder port
                                  (PrimaryListeners pythonCmd folder port)],
                             running := True\<rparr>)))
           | Some error \<Rightarrow>
               if err_code error = ENOENT \<and> pythonCmd = ''python''
               then tryPython3Fallback env folder port m1
               else (False,
                     fire ((showMessage (failed_to_start (err_text error)) m1)
                             \<lparr>running := False\<rparr>)))"

text \<open>
  The listeners. \<open>on_error\<close> is the \<^verbatim>\<open>'error'\<close> listener of a child, \<open>on_exit\<close> its
  \<^verbatim>\<open>'exit'\<close> listener and \<open>on_stderr\<close> the \<^verbatim>\<open>'data'\<close> listener of its standard
  error stream. The primary child's listeners close over \<open>pythonCmd\<close>, \<open>folder\<close> and
  \<open>port\<close>; the fallback child's over \<open>port\<close>.
\<close>

definition on_error ::
  "server_env \<Rightarrow> listeners \<Rightarrow> spawn_error \<Rightarrow> HTTPServerManager \<Rightarrow> HTTPServerManager" where
  "on_error env ls err m =
     (case ls of
        PrimaryListeners pythonCmd folder port \<Rightarrow>
          if err_code err = ENOENT \<and> pythonCmd = ''python3''
          then fire ((showMessage python3_not_found m)\<lparr>running := False\<rparr>)
          else if err_code err = ENOENT \<and> pythonCmd = ''python''
          then snd (tryPython3Fallback env folder port m)
          else fire ((showMessage (failed_to_start (err_text err)) m)\<lparr>running := False\<rparr>)
      | FallbackListeners port \<Rightarrow>
          fire ((showMessage
                   (if err_code err = ENOENT then neither_found
                    else failed_to_start (err_text err)) m)\<lparr>running := False\<rparr>))"

definition on_exit :: "HTTPServerManager \<Rightarrow> HTTPServerManager" where
  "on_exit m =
     showMessage (InformationMessage ''HTTP server stopped.'') (fire (m\<lparr>running := False\<rparr>))"

definition listeners_port :: "listeners \<Rightarrow> nat" where
  "listeners_port ls =
     (case ls of PrimaryListeners pythonCmd folder port \<Rightarrow> port | FallbackListeners port \<Rightarrow> port)"

definition on_stderr :: "listeners \<Rightarrow> string \<Rightarrow> HTTPServerManager \<Rightarrow> HTTPServerManager" where
  "on_stderr ls data m =
     (if str_includes data ''Address already in use'' then
        stopServer
          (showMessage
             (ErrorMessage (''Port '' @ string_of_nat (listeners_port ls) @
                            '' is already in use. Please choose another port.'')) m)
      else if str_includes (toLowerCase data) ''error'' then
        showMessage (ErrorMessage (''HTTP server error: '' @ data)) m
      else m)"

text \<open>
  What happens to the supervisor, in the order the single-threaded host delivers
  it: calls of its methods and events of the children it spawned. An event for a
  child that was never spawned has no listener and changes nothing.
\<close>

datatype server_event =
  StartServer string nat
| StopServer
| ChildError nat spawn_error
| ChildExit nat
| ChildStderr nat string

fun server_step :: "server_env \<Rightarrow> server_event \<Rightarrow> HTTPServerManager \<Rightarrow> HTTPServerManager" where
  "server_step env (StartServer folder port) m = snd (startServer env folder port m)"
| "server_step env StopServer m = stopServer m"
| "server_step env (ChildError pid err) m =
     (if pid < length (children m)
      then on_error env (child_listeners (children m ! pid)) err m else m)"
| "server_step env (ChildExit pid) m =
     (if pid < length (children m) then on_exit m else m)"
| "server_step env (ChildStderr pid data) m =
     (if pid < length (children m)
      then on_stderr (child_listeners (children m ! pid)) data m else m)"

fun server_run :: "server_env \<Rightarrow> server_event list \<Rightarrow> HTTPServerManager \<Rightarrow> HTTPServerManager" where
  "server_run env [] m = m"
| "server_run env (e # es) m = server_run env es (server_step env e m)"

section \<open>The process runner and the command queue (\<open>UVExecutor\<close>)\<close>

subsection \<open>Promises chained with \<open>then\<close>\<close>

text \<open>
  \<^verbatim>\<open>enqueue(fn)\<close> is
  \<^verbatim>\<open>this.commandQueue = this.commandQueue.then(() => fn()); return this.commandQueue;\<close>
  with \<^verbatim>\<open>commandQueue\<close> initially \<^verbatim>\<open>Promise.resolve()\<close>. Every call creates one new
  promise, derived with \<^verbatim>\<open>then\<close> from the promise created by the call before it
  (the first one from the initial, fulfilled promise), and nothing else ever reacts to
  these promises inside the queue. The queue is therefore the list of the derived
  promises in creation order, each with the function it was created for;
  \<^verbatim>\<open>commandQueue\<close> is the last of them.

  A derived promise is \<open>Waiting\<close> while its reaction has not run, \<open>Running\<close> when the
  reaction has called \<open>fn\<close> and the promise \<open>fn\<close> returned is still pending, and \<open>Done\<close>
  once it has settled. \<^verbatim>\<open>then\<close> is given a fulfilment handler only, so its
  reaction does this once the promise before it has settled: if that one is fulfilled,
  \<open>fn\<close> is called and the derived promise follows the promise \<open>fn\<close> returns; if that
  one is rejected, \<open>fn\<close> is not called and the derived promise is rejected with the
  same reason. \<open>called\<close> logs the calls of queued functions, in the order they are
  made, and \<open>started\<close> logs what these calls started outside the queue, at the moment
  they start it (for the executor: the commands for which \<^verbatim>\<open>cp.exec\<close> created a
  process).
\<close>

datatype ('v, 'e) settled = Fulfilled 'v | Rejected 'e

datatype ('v, 'e) promise = Pending | Settled "('v, 'e) settled"

datatype ('v, 'e) link_state = Waiting | Running | Done "('v, 'e) settled"

record ('f, 'v, 'e, 'x) command_queue =
  links :: "('f \<times> ('v, 'e) link_state) list"
  called :: "nat list"
  started :: "'x list"

definition new_queue :: "('f, 'v, 'e, 'x) command_queue" where
  "new_queue = \<lparr>links = [], called = [], started = []\<rparr>"

fun predecessor :: "('f \<times> ('v, 'e) link_state) list \<Rightarrow> nat \<Rightarrow> (unit, 'e) promise" where
  "predecessor ls 0 = Settled (Fulfilled ())"
| "predecessor ls (Suc k) =
     (case snd (ls ! k) of
        Done (Fulfilled v) \<Rightarrow> Settled (Fulfilled ())
      | Done (Rejected e) \<Rightarrow> Settled (Rejected e)
      | Running \<Rightarrow> Pending
      | Waiting \<Rightarrow> Pending)"

definition enqueue ::
  "'f \<Rightarrow> ('f, 'v, 'e, 'x) command_queue \<Rightarrow> ('f, 'v, 'e, 'x) command_queue" where
  "enqueue fn q = q\<lparr>links := links q @ [(fn, Waiting)]\<rparr>"

text \<open>
  \<open>react call k\<close> runs the reaction of the \<open>k\<close>-th derived promise, if it is due.
  \<open>call fn\<close> is what calling \<open>fn\<close> does: the state of the promise that \<open>fn\<close> returns at
  the moment it returns (pending, or already fulfilled or rejected) and what the call
  started. \<open>settle k out\<close> is the promise returned by the \<open>k\<close>-th function settling
  with \<open>out\<close>.
\<close>

definition react ::
  "('f \<Rightarrow> ('v, 'e) promise \<times> 'x list) \<Rightarrow> nat \<Rightarrow>
   ('f, 'v, 'e, 'x) command_queue \<Rightarrow> ('f, 'v, 'e, 'x) command_queue" where
  "react call k q =
     (if k < length (links q) \<and> snd (links q ! k) = Waiting then
        (case predecessor (links q) k of
           Pending \<Rightarrow> q
         | Settled (Rejected e) \<Rightarrow>
             q\<lparr>links := (links q)[k := (fst (links q ! k), Done (Rejected e))]\<rparr>
         | Settled (Fulfilled u) \<Rightarrow>
             q\<lparr>links := (links q)[k := (fst (links q ! k),
                                          (case fst (call (fst (links q ! k))) of
                                             Pending \<Rightarrow> Running
                                           | Settled out \<Rightarrow> Done out))],
               called := called q @ [k],
               started := started q @ snd (call (fst (links q ! k)))\<rparr>)
      else q)"

definition settle ::
  "nat \<Rightarrow> ('v, 'e) settled \<Rightarrow> ('f, 'v, 'e, 'x) command_queue \<Rightarrow> ('f, 'v, 'e, 'x) command_queue" where
  "settle k out q =
     (if k < length (links q) \<and> snd (links q ! k) = Running
      then q\<lparr>links := (links q)[k := (fst (links q ! k), Done out)]\<rparr>
      else q)"

definition is_done :: "('v, 'e) link_state \<Rightarrow> bool" where
  "is_done st = (case st of Done out \<Rightarrow> True | Running \<Rightarrow> False | Waiting \<Rightarrow> False)"

definition is_fulfilled :: "('v, 'e) link_state \<Rightarrow> bool" where
  "is_fulfilled st =
     (case st of Done (Fulfilled v) \<Rightarrow> True | Done (Rejected e) \<Rightarrow> False
      | Running \<Rightarrow> False | Waiting \<Rightarrow> False)"

definition state_of :: "('f, 'v, 'e, 'x) command_queue \<Rightarrow> nat \<Rightarrow> ('v, 'e) link_state" where
  "state_of q k = snd (links q ! k)"



subsection \<open>The process runner\<close>

text \<open>
  \<^verbatim>\<open>_executeCommand(args, cwd)\<close> (here \<open>executeCommand_impl\<close>) builds a promise whose
  executor receives \<^verbatim>\<open>resolve\<close> only. It reads the configured binary path
  (\<open>getUVPath\<close>) and the workspace root and resolves at once when there is no working
  directory. Otherwise it hands the command line to \<^verbatim>\<open>cp.exec\<close>, with nothing
  around the call to catch what it throws. \<^verbatim>\<open>cp.exec\<close> checks its arguments before
  it creates a process and throws when it refuses them; an error thrown inside the
  executor of a promise rejects that promise. When \<^verbatim>\<open>cp.exec\<close> accepts the call it
  creates the process and reports how it ended through its callback, as
  \<open>(error, stdout, stderr)\<close>; of the error only its message is used, and the promise is
  resolved in the callback.

  Which calls \<^verbatim>\<open>cp.exec\<close> refuses is given by \<open>exec_throws\<close>: the error thrown for a
  command line and a working directory, if any. \<open>node_exec_throws\<close> is the check the
  host makes on strings: a NUL character in the command line or in the working
  directory is refused.
  A value of type \<^verbatim>\<open>string | undefined\<close> is a \<open>string option\<close>; it is falsy when
  undefined or empty.
\<close>

record UVCommandResult =
  success :: bool
  cmd_output :: string
  cmd_error :: "string option"

record executor_env =
  getUVPath :: string
  getWorkspaceRoot :: "string option"

record exec_callback =
  cb_error :: "string option"
  cb_stdout :: string
  cb_stderr :: string

datatype exec_request =
  Resolved UVCommandResult
| Exec string string
| Throws string

definition node_exec_throws :: "string \<Rightarrow> string \<Rightarrow> string option" where
  "node_exec_throws command dir =
     (if CHR 0x00 \<in> set command \<or> CHR 0x00 \<in> set dir
      then Some ''ERR_INVALID_ARG_VALUE'' else None)"

definition truthy :: "string option \<Rightarrow> bool" where
  "truthy s = (case s of None \<Rightarrow> False | Some v \<Rightarrow> v \<noteq> [])"

fun join :: "string \<Rightarrow> string list \<Rightarrow> string" where
  "join sep [] = []"
| "join sep [x] = x"
| "join sep (x # y # ys) = x @ sep @ join sep (y # ys)"

definition executeCommand_impl ::
  "(string \<Rightarrow> string \<Rightarrow> string option) \<Rightarrow> executor_env \<Rightarrow>
   string list \<times> string option \<Rightarrow> exec_request" where
  "executeCommand_impl exec_throws env request =
     (let uvPath = getUVPath env;
          workspaceRoot = (if truthy (snd request) then snd request else getWorkspaceRoot env)
      in if \<not> truthy workspaceRoot then
           Resolved \<lparr>success = False, cmd_output = [], cmd_error = Some ''No workspace root found''\<rparr>
         else
           let command = uvPath @ '' '' @ join '' '' (fst request)
           in case exec_throws command (the workspaceRoot) of
                Some err \<Rightarrow> Throws err
              | None \<Rightarrow> Exec command (the workspaceRoot))"

definition on_exec_callback :: "exec_callback \<Rightarrow> UVCommandResult" where
  "on_exec_callback cb =
     (case cb_error cb of
        Some msg \<Rightarrow>
          \<lparr>success = False, cmd_output = cb_stdout cb,
           cmd_error = Some (if cb_stderr cb \<noteq> [] then cb_stderr cb else msg)\<rparr>
      | None \<Rightarrow>
          \<lparr>success = True, cmd_output = cb_stdout cb, cmd_error = Some (cb_stderr cb)\<rparr>)"

text \<open>
  What a call of \<open>executeCommand_impl\<close> is to the queue: the promise it returns is
  already fulfilled when there is no working directory, already rejected when
  \<^verbatim>\<open>cp.exec\<close> threw, and pending while the external binary runs; only in the last
  case has a process been started, for the command line and directory logged.
\<close>

definition call_executeCommand ::
  "(string \<Rightarrow> string \<Rightarrow> string option) \<Rightarrow> executor_env \<Rightarrow> string list \<times> string option \<Rightarrow>
   (UVCommandResult, string) promise \<times> (string \<times> string) list" where
  "call_executeCommand exec_throws env request =
     (case executeCommand_impl exec_throws env request of
        Resolved r \<Rightarrow> (Settled (Fulfilled r), [])
      | Exec command dir \<Rightarrow> (Pending, [(command, dir)])
      | Throws err \<Rightarrow> (Settled (Rejected err), []))"

text \<open>
  The executor as the rest of the extension drives it: \<open>executeCommand\<close> enqueues
  \<^verbatim>\<open>() => this._executeCommand(args, cwd)\<close>; the host runs reactions; \<^verbatim>\<open>cp.exec\<close>
  calls back for the command started by the \<open>k\<close>-th queued function.
\<close>

type_synonym executor_queue =
  "(string list \<times> string option, UVCommandResult, string, string \<times> string) command_queue"

definition executeCommand :: "string list \<Rightarrow> string option \<Rightarrow> executor_queue \<Rightarrow> executor_queue" where
  "executeCommand args cwd q = enqueue (args, cwd) q"

datatype executor_event =
  ExecuteCommand "string list" "string option"
| Reaction nat
| ExecCallback nat exec_callback

fun executor_step ::
  "(string \<Rightarrow> string \<Rightarrow> string option) \<Rightarrow> executor_env \<Rightarrow> executor_event \<Rightarrow>
   executor_queue \<Rightarrow> executor_queue" where
  "executor_step exec_throws env (ExecuteCommand args cwd) q = executeCommand args cwd q"
| "executor_step exec_throws env (Reaction k) q = react (call_executeCommand exec_throws env) k q"
| "executor_step exec_throws env (ExecCallback k cb) q =
     settle k (Fulfilled (on_exec_callback cb)) q"

fun executor_run ::
  "(string \<Rightarrow> string \<Rightarrow> string option) \<Rightarrow> executor_env \<Rightarrow> executor_event list \<Rightarrow>
   executor_queue \<Rightarrow> executor_queue" where
  "executor_run exec_throws env [] q = q"
| "executor_run exec_throws env (ev # evs) q =
     executor_run exec_throws env evs (executor_step exec_throws env ev q)"

text \<open>
  \<open>invocations\<close> is the log of the processes \<^verbatim>\<open>cp.exec\<close> created. \<open>exec_of\<close> is the
  command a request starts when it is called, if it starts one: it does when it has
  a working directory and \<^verbatim>\<open>cp.exec\<close> accepts the call. \<open>submitted\<close> lists the
  requests of an event sequence in submission order.
\<close>

definition invocations :: "executor_queue \<Rightarrow> (string \<times> string) list" where
  "invocations q = started q"



section \<open>The debounced refresh of the status bar (\<open>UVStatusBar\<close>)\<close>

text \<open>
  \<^verbatim>\<open>debouncedUpdateStatus\<close> clears the timer held in \<open>debounceTimer\<close>, if there is
  one, and sets a new one that calls \<open>updateStatus\<close> after \<open>debounceDelay\<close> = 300 ms.
  The host's timers are part of the state: \<open>timers\<close> holds the pending timeouts as
  pairs of handle and due time, \<^verbatim>\<open>setTimeout\<close> adds one under a fresh handle and
  \<^verbatim>\<open>clearTimeout\<close> removes it. The host runs a timeout no earlier than its due time:
  \<open>run_timers now\<close> runs the callbacks of all timeouts due at \<open>now\<close>. Each callback
  calls \<open>updateStatus\<close>; \<open>updates\<close> logs the times of these calls. The handle stays in
  \<open>debounceTimer\<close> after its timeout has run, as in the source. Times are integers, in
  milliseconds.
\<close>

record debounce_state =
  debounceTimer :: "nat option"
  timers :: "(nat \<times> int) list"
  next_handle :: nat
  updates :: "int list"

definition debounceDelay :: int where
  "debounceDelay = 300"

definition new_debounce_state :: debounce_state where
  "new_debounce_state = \<lparr>debounceTimer = None, timers = [], next_handle = 0, updates = []\<rparr>"

definition clearTimeout :: "nat \<Rightarrow> (nat \<times> int) list \<Rightarrow> (nat \<times> int) list" where
  "clearTimeout h ts = filter (\<lambda>t. fst t \<noteq> h) ts"

definition debouncedUpdateStatus :: "int \<Rightarrow> debounce_state \<Rightarrow> debounce_state" where
  "debouncedUpdateStatus now s =
     (let ts = (case debounceTimer s of
                  Some h \<Rightarrow> clearTimeout h (timers s)
                | None \<Rightarrow> timers s)
      in s\<lparr>timers := ts @ [(next_handle s, now + debounceDelay)],
            debounceTimer := Some (next_handle s),
            next_handle := Suc (next_handle s)\<rparr>)"

definition run_timers :: "int \<Rightarrow> debounce_state \<Rightarrow> debounce_state" where
  "run_timers now s =
     s\<lparr>updates := updates s @ map (\<lambda>t. now) (filter (\<lambda>t. snd t \<le> now) (timers s)),
       timers := filter (\<lambda>t. \<not> snd t \<le> now) (timers s)\<rparr>"

text \<open>
  What happens to the status bar over time: a refresh request (a call of
  \<^verbatim>\<open>debouncedUpdateStatus\<close>) or a turn of the host's timer phase, each at a time.
\<close>

datatype debounce_event = Request int | Tick int

fun event_time :: "debounce_event \<Rightarrow> int" where
  "event_time (Request t) = t"
| "event_time (Tick t) = t"

fun debounce_step :: "debounce_event \<Rightarrow> debounce_state \<Rightarrow> debounce_state" where
  "debounce_step (Request t) s = debouncedUpdateStatus t s"
| "debounce_step (Tick t) s = run_timers t s"

fun debounce_run :: "debounce_event list \<Rightarrow> debounce_state \<Rightarrow> debounce_state" where
  "debounce_run [] s = s"
| "debounce_run (e # es) s = debounce_run es (debounce_step e s)"

fun requests :: "debounce_event list \<Rightarrow> int list" where
  "requests [] = []"
| "requests (Request t # es) = t # requests es"
| "requests (Tick t # es) = requests es"

section \<open>The status aggregator (\<open>UVStatusBar.updateStatus\<close>)\<close>

text \<open>
  The status bar owns six items. An item has a text, a tooltip, a command and is
  shown or hidden. \<open>updateStatus\<close> and \<open>updateProjectBars\<close> await calls of the
  executor and of private helpers; each such call either returns a value or throws,
  which is what the environment records, call site by call site (\<open>Inl\<close> is the thrown
  error). Assignments to the items and \<^verbatim>\<open>show()\<close>/\<^verbatim>\<open>hide()\<close> do not throw.
  A function returns the error that leaves it, if any, and the view it leaves behind.
\<close>

record status_item =
  item_text :: string
  item_tooltip :: string
  item_command :: "string option"
  item_visible :: bool

record status_view =
  statusBarItem :: status_item
  projectInfoBar :: status_item
  pythonVersionBar :: status_item
  dependenciesBar :: status_item
  venvBar :: status_item
  httpServerBar :: status_item

record venv_status =
  venv_text :: string
  venv_tooltip :: string
  venv_command :: string

record aggregator_env =
  hasProjectFiles :: "string + bool"
  checkUVInstalled :: "string + bool"
  getProjectInfo :: "string + string option option"
  getDependencies :: "string + string list"
  getEnvironments :: "string + string list"
  getPythonVersion_bars :: "string + string option"
  getCurrentPythonToolchain_bars :: "string + string option"
  isVenvActive :: "string + bool"
  getCurrentPythonToolchain_venv :: "string + string option"
  getPythonVersion_venv :: "string + string option"

definition hide :: "status_item \<Rightarrow> status_item" where
  "hide item = item\<lparr>item_visible := False\<rparr>"

definition shown :: "string \<Rightarrow> string \<Rightarrow> string \<Rightarrow> status_item" where
  "shown txt tip cmd =
     \<lparr>item_text = txt, item_tooltip = tip, item_command = Some cmd, item_visible = True\<rparr>"

definition init_item :: status_item where
  "init_item =
     shown ''$(plus) UV'' ''Initialize UV project - Click to create new project'' ''uv.init''"

definition project_item :: status_item where
  "project_item =
     shown ''$(check) UV Project'' ''UV project detected - Click for quick actions''
       ''uv.showQuickActions''"

definition not_found_item :: status_item where
  "not_found_item =
     shown ''$(error) UV not found'' ''UV is not installed or not in PATH'' ''uv.help''"

definition hideProjectBars :: "status_view \<Rightarrow> status_view" where
  "hideProjectBars v =
     v\<lparr>projectInfoBar := hide (projectInfoBar v),
       pythonVersionBar := hide (pythonVersionBar v),
       dependenciesBar := hide (dependenciesBar v),
       venvBar := hide (venvBar v)\<rparr>"

text \<open>
  \<open>getVenvStatus\<close> awaits \<open>isVenvActive\<close>, \<open>getCurrentPythonToolchain\<close> and
  \<open>getPythonVersion\<close>, in this order, before it builds its answer.
\<close>

definition getVenvStatus :: "aggregator_env \<Rightarrow> string list \<Rightarrow> string + venv_status" where
  "getVenvStatus env environments =
     (case isVenvActive env of Inl e \<Rightarrow> Inl e | Inr active \<Rightarrow>
      case getCurrentPythonToolchain_venv env of Inl e \<Rightarrow> Inl e | Inr currentToolchain \<Rightarrow>
      case getPythonVersion_venv env of Inl e \<Rightarrow> Inl e | Inr pythonVersion \<Rightarrow>
        let toolchainInfo = (case currentToolchain of
                               Some t \<Rightarrow> if t \<noteq> [] then '' ('' @ t @ '')'' else []
                             | None \<Rightarrow> []);
            versionInfo = (case pythonVersion of
                             Some p \<Rightarrow> if p \<noteq> [] then '' Python '' @ p else []
                           | None \<Rightarrow> [])
        in if active then
             Inr \<lparr>venv_text = ''$(server-environment) venv active'',
                  venv_tooltip = ''Virtual environment is active'' @ versionInfo @ toolchainInfo
                                   @ '' - Click to deactivate'',
                  venv_command = ''uv.deactivateVenv''\<rparr>
           else (case environments of
                   venvName # rest \<Rightarrow>
                     Inr \<lparr>venv_text = ''$(server-environment) '' @ venvName,
                          venv_tooltip = ''Virtual environment '' @ venvName @ '' exists''
                                           @ versionInfo @ toolchainInfo
                                           @ '' but not active - Click to activate'',
                          venv_command = ''uv.activateVenv''\<rparr>
                 | [] \<Rightarrow>
                     Inr \<lparr>venv_text = ''$(server-environment) no venv'',
                          venv_tooltip = ''No virtual environment - Click to create one'',
                          venv_command = ''uv.venv''\<rparr>))"

text \<open>
  \<open>updateProjectBars\<close>: the whole body is inside \<^verbatim>\<open>try\<close>; its \<^verbatim>\<open>catch\<close> logs the
  error and calls \<open>hideProjectBars\<close>. The project information is \<^verbatim>\<open>null\<close> (\<open>None\<close>)
  or an object whose \<open>name\<close> may be missing.
\<close>

definition updateProjectBars :: "aggregator_env \<Rightarrow> status_view \<Rightarrow> string option \<times> status_view" where
  "updateProjectBars env v =
     (case getProjectInfo env of Inl e \<Rightarrow> (None, hideProjectBars v) | Inr projectInfo \<Rightarrow>
      case getDependencies env of Inl e \<Rightarrow> (None, hideProjectBars v) | Inr dependencies \<Rightarrow>
      case getEnvironments env of Inl e \<Rightarrow> (None, hideProjectBars v) | Inr environments \<Rightarrow>
        let v1 = (case projectInfo of
                    Some (Some name) \<Rightarrow>
                      if name \<noteq> [] then
                        v\<lparr>projectInfoBar :=
                            shown (''$(folder) '' @ name) (''UV Project: '' @ name) ''uv.tree''\<rparr>
                      else v
                  | Some None \<Rightarrow> v
                  | None \<Rightarrow> v)
        in
      case getPythonVersion_bars env of Inl e \<Rightarrow> (None, hideProjectBars v1) | Inr pythonVersion \<Rightarrow>
      case getCurrentPythonToolchain_bars env of Inl e \<Rightarrow> (None, hideProjectBars v1)
      | Inr currentToolchain \<Rightarrow>
        let v2 = (if truthy pythonVersion then
                    v1\<lparr>pythonVersionBar :=
                         shown (''$(python) '' @ the pythonVersion)
                           (if truthy currentToolchain
                            then ''Python '' @ the pythonVersion @ '' ('' @ the currentToolchain
                                   @ '') - Click to manage versions''
                            else ''Python '' @ the pythonVersion @ '' - Click to manage versions'')
                           ''uv.python''\<rparr>
                  else v1);
            depsCount = length dependencies;
            v3 = v2\<lparr>dependenciesBar :=
                      shown (''$(package) '' @ string_of_nat depsCount @ '' deps'')
                        (string_of_nat depsCount @ '' dependencies - Click to manage'')
                        ''uv.add''\<rparr>
        in
      case getVenvStatus env environments of Inl e \<Rightarrow> (None, hideProjectBars v3)
      | Inr venvStatus \<Rightarrow>
          (None, v3\<lparr>venvBar := shown (venv_text venvStatus) (venv_tooltip venvStatus)
                                   (venv_command venvStatus)\<rparr>))"

text \<open>
  \<open>updateStatus\<close>: again the whole body is inside \<^verbatim>\<open>try\<close>; its \<^verbatim>\<open>catch\<close> logs
  the error, puts the main item back to the initial one and hides the project bars
  (\<open>updateStatus_catch\<close>). Every assignment of the main item's text, tooltip and
  command is followed by \<^verbatim>\<open>show()\<close> before anything is awaited, so the item
  is replaced by a shown one in one step.
\<close>

definition updateStatus_catch :: "status_view \<Rightarrow> status_view" where
  "updateStatus_catch v = hideProjectBars (v\<lparr>statusBarItem := init_item\<rparr>)"

definition updateStatus :: "aggregator_env \<Rightarrow> status_view \<Rightarrow> string option \<times> status_view" where
  "updateStatus env v =
     (case hasProjectFiles env of Inl e \<Rightarrow> (None, updateStatus_catch v) | Inr hasProject \<Rightarrow>
      case checkUVInstalled env of Inl e \<Rightarrow> (None, updateStatus_catch v) | Inr isUVInstalled \<Rightarrow>
        if \<not> isUVInstalled then
          (None, hideProjectBars (v\<lparr>statusBarItem := not_found_item\<rparr>))
        else
          let v2 = v\<lparr>statusBarItem := (if hasProject then project_item else init_item)\<rparr>
          in if hasProject then
               (case updateProjectBars env v2 of
                  (None, v3) \<Rightarrow> (None, v3)
                | (Some e, v3) \<Rightarrow> (None, updateStatus_catch v3))
             else (None, hideProjectBars v2))"

text \<open>
  The view the constructor builds before its first refresh: the main item is the
  initial one, the project bars are created hidden and empty, the server bar is shown.
\<close>

definition created_item :: status_item where
  "created_item = \<lparr>item_text = [], item_tooltip = [], item_command = None, item_visible = False\<rparr>"

definition new_status_view :: status_view where
  "new_status_view =
     \<lparr>statusBarItem = init_item, projectInfoBar = created_item, pythonVersionBar = created_item,
      dependenciesBar = created_item, venvBar = created_item,
      httpServerBar = \<lparr>item_text = ''$(globe) Start HTTP Server'',
                        item_tooltip = ''Start a Python HTTP server (Click to start)'',
                        item_command = None, item_visible = True\<rparr>\<rparr>"

text \<open>Some awaited call of \<open>updateProjectBars\<close> (or of \<open>getVenvStatus\<close> in it) throws.\<close>

definition throws_in_updateProjectBars :: "aggregator_env \<Rightarrow> bool" where
  "throws_in_updateProjectBars env \<longleftrightarrow>
     isl (getProjectInfo env) \<or> isl (getDependencies env) \<or> isl (getEnvironments env)
   \<or> isl (getPythonVersion_bars env) \<or> isl (getCurrentPythonToolchain_bars env)
   \<or> isl (isVenvActive env) \<or> isl (getCurrentPythonToolchain_venv env)
   \<or> isl (getPythonVersion_venv env)"

definition project_bars_hidden :: "status_view \<Rightarrow> bool" where
  "project_bars_hidden v \<longleftrightarrow>
     \<not> item_visible (projectInfoBar v) \<and> \<not> item_visible (pythonVersionBar v)
   \<and> \<not> item_visible (dependenciesBar v) \<and> \<not> item_visible (venvBar v)"

section \<open>The interpreter version-pin file (\<open>UVExecutor\<close>)\<close>

subsection \<open>Regular expressions\<close>

text \<open>
  The two patterns used here are built from character classes, \<^verbatim>\<open>+\<close> on a character
  class, sequence and \<^verbatim>\<open>?\<close>. \<open>rx_rems r s\<close> lists what is left of \<open>s\<close> after each
  way \<open>r\<close> can match a prefix of it, in the order a backtracking matcher tries them:
  \<^verbatim>\<open>+\<close> and \<^verbatim>\<open>?\<close> are greedy. \<open>rx_test\<close> is \<^verbatim>\<open>test\<close> for a pattern between
  \<^verbatim>\<open>^\<close> and \<^verbatim>\<open>$\<close> (without the multiline flag, \<^verbatim>\<open>$\<close> is the end of the
  input); \<open>rx_first\<close> is the text taken by the first way to match at the start of \<open>s\<close>.
\<close>

datatype rx =
  Chars "char \<Rightarrow> bool"
| Chars1 "char \<Rightarrow> bool"
| Cat rx rx
| Maybe rx

fun plus_rems :: "(char \<Rightarrow> bool) \<Rightarrow> string \<Rightarrow> string list" where
  "plus_rems p [] = []"
| "plus_rems p (c # cs) = (if p c then plus_rems p cs @ [cs] else [])"

fun rx_rems :: "rx \<Rightarrow> string \<Rightarrow> string list" where
  "rx_rems (Chars p) s = (case s of [] \<Rightarrow> [] | c # cs \<Rightarrow> if p c then [cs] else [])"
| "rx_rems (Chars1 p) s = plus_rems p s"
| "rx_rems (Cat a b) s = concat (map (rx_rems b) (rx_rems a s))"
| "rx_rems (Maybe a) s = rx_rems a s @ [s]"

text \<open>The characters a pattern can take: those of its classes.\<close>

fun rx_chars :: "rx \<Rightarrow> char \<Rightarrow> bool" where
  "rx_chars (Chars p) c = p c"
| "rx_chars (Chars1 p) c = p c"
| "rx_chars (Cat a b) c = (rx_chars a c \<or> rx_chars b c)"
| "rx_chars (Maybe a) c = rx_chars a c"

definition rx_test :: "rx \<Rightarrow> string \<Rightarrow> bool" where
  "rx_test r s = ([] \<in> set (rx_rems r s))"

definition rx_first :: "rx \<Rightarrow> string \<Rightarrow> string option" where
  "rx_first r s =
     (case rx_rems r s of
        [] \<Rightarrow> None
      | rest # others \<Rightarrow> Some (take (length s - length rest) s))"

definition is_digit :: "char \<Rightarrow> bool" where
  "is_digit c = (c \<in> set ''0123456789'')"

definition is_char :: "char \<Rightarrow> char \<Rightarrow> bool" where
  "is_char x c = (c = x)"

definition is_version_char :: "char \<Rightarrow> bool" where
  "is_version_char c = (is_digit c \<or> c \<in> set ''abrc'')"

definition is_a_or_b :: "char \<Rightarrow> bool" where
  "is_a_or_b c = (c \<in> set ''ab'')"

subsection \<open>Strings of the host language\<close>

text \<open>
  \<^verbatim>\<open>trim\<close> removes white space and line terminators at both ends (of the
  one-byte characters: tab, line feed, vertical tab, form feed, carriage return and
  space). \<^verbatim>\<open>split('.')\<close> cuts a string at every dot.
\<close>

definition is_space :: "char \<Rightarrow> bool" where
  "is_space c = (c \<in> set [CHR 0x09, CHR 0x0A, CHR 0x0B, CHR 0x0C, CHR 0x0D, CHR 0x20])"

definition trim :: "string \<Rightarrow> string" where
  "trim s = rev (dropWhile is_space (rev (dropWhile is_space s)))"

fun split_on :: "char \<Rightarrow> string \<Rightarrow> string list" where
  "split_on sep [] = [[]]"
| "split_on sep (c # cs) =
     (if c = sep then [] # split_on sep cs
      else (case split_on sep cs of
              [] \<Rightarrow> [[c]]
            | w # ws \<Rightarrow> (c # w) # ws))"

text \<open>
  The major.minor part of a version, as \<open>waitForVenvPythonVersion\<close> and
  \<open>findToolchainForVersion\<close> compute it:
  \<^verbatim>\<open>version.split('.').slice(0, 2).join('.')\<close>.
\<close>

definition major_minor :: "string \<Rightarrow> string" where
  "major_minor version = join ''.'' (take 2 (split_on CHR ''.'' version))"

subsection \<open>Writing and reading the pin file\<close>

text \<open>
  \<open>validatePythonVersion\<close> tests \<^verbatim>\<open>/^\d+\.\d+(\.\d+)?([ab]\d+)?(rc\d+)?$/\<close>.
\<close>

definition version_format :: rx where
  "version_format =
     Cat (Chars1 is_digit) (Cat (Chars (is_char CHR ''.'')) (Cat (Chars1 is_digit)
       (Cat (Maybe (Cat (Chars (is_char CHR ''.'')) (Chars1 is_digit)))
         (Cat (Maybe (Cat (Chars is_a_or_b) (Chars1 is_digit)))
              (Maybe (Cat (Chars (is_char CHR ''r'')) (Cat (Chars (is_char CHR ''c'')) (Chars1 is_digit))))))))"

definition validatePythonVersion :: "string \<Rightarrow> bool" where
  "validatePythonVersion version = rx_test version_format version"

text \<open>
  The workspace's files are a map from paths to contents; a file that cannot be
  written makes \<^verbatim>\<open>writeFile\<close> throw, a path without a file makes \<^verbatim>\<open>readFile\<close>
  throw. \<^verbatim>\<open>path.join\<close> puts a separator between its arguments (its
  normalisation of the result is not modelled; reader and writer join the same two
  strings). A string written as UTF-8 and decoded again is unchanged.
\<close>

record file_system =
  files :: "string \<rightharpoonup> string"
  writable :: "string \<Rightarrow> bool"

definition path_join :: "string \<Rightarrow> string \<Rightarrow> string" where
  "path_join dir name = dir @ ''/'' @ name"

definition updatePythonVersionFile :: "string \<Rightarrow> string \<Rightarrow> file_system \<Rightarrow> string + file_system" where
  "updatePythonVersionFile workspaceRoot version fs =
     (let pythonVersionPath = path_join workspaceRoot ''.python-version''
      in if writable fs pythonVersionPath
         then Inr (fs\<lparr>files := (files fs)(pythonVersionPath \<mapsto> version @ [CHR 0x0A])\<rparr>)
         else Inl ''Failed to update .python-version file'')"

text \<open>
  \<open>getPythonVersionFromFiles\<close> reads the pin file first. Its content, trimmed, is a
  toolchain id; \<^verbatim>\<open>toolchainId.match(/-(\d+\.[\dabrc]+(?:\.[\dabrc]+)?)/)\<close> looks for
  the leftmost hyphen followed by a version (\<open>match_toolchain_version\<close> gives the
  group), and without a match the whole id is returned. Only when the file is missing
  or blank does it turn to \<^verbatim>\<open>pyproject.toml\<close>; that text extraction of
  \<^verbatim>\<open>requires-python\<close> is the parameter \<open>requires_python\<close>.
\<close>

definition toolchain_version :: rx where
  "toolchain_version =
     Cat (Chars1 is_digit) (Cat (Chars (is_char CHR ''.'')) (Cat (Chars1 is_version_char)
       (Maybe (Cat (Chars (is_char CHR ''.'')) (Chars1 is_version_char)))))"

fun match_toolchain_version :: "string \<Rightarrow> string option" where
  "match_toolchain_version [] = None"
| "match_toolchain_version (c # cs) =
     (if c = CHR ''-'' then
        (case rx_first toolchain_version cs of
           Some v \<Rightarrow> Some v
         | None \<Rightarrow> match_toolchain_version cs)
      else match_toolchain_version cs)"

definition getPythonVersionFromFiles ::
  "executor_env \<Rightarrow> (string \<Rightarrow> string option) \<Rightarrow> file_system \<Rightarrow> string option" where
  "getPythonVersionFromFiles env requires_python fs =
     (if \<not> truthy (getWorkspaceRoot env) then None
      else
        let workspaceRoot = the (getWorkspaceRoot env);
            from_pyproject =
              (case files fs (path_join workspaceRoot ''pyproject.toml'') of
                 Some text \<Rightarrow> requires_python text
               | None \<Rightarrow> None)
        in case files fs (path_join workspaceRoot ''.python-version'') of
             Some content \<Rightarrow>
               let toolchainId = trim content
               in if toolchainId \<noteq> [] then
                    (case match_toolchain_version toolchainId of
                       Some v \<Rightarrow> Some v
                     | None \<Rightarrow> Some toolchainId)
                  else from_pyproject
           | None \<Rightarrow> from_pyproject)"

section \<open>Properties of the command queue and the process runner\<close>

lemma is_done_simps [simp]:
  "is_done (Done out)" "\<not> is_done Running" "\<not> is_done Waiting"
  by (simp_all add: is_done_def)



lemma predecessor_Fulfilled:
  "predecessor ls k = Settled (Fulfilled u) \<longleftrightarrow> (k = 0 \<or> (\<exists>v. snd (ls ! (k - 1)) = Done (Fulfilled v)))"
  by (cases k) (auto split: link_state.splits settled.splits)

lemma predecessor_Rejected:
  "predecessor ls k = Settled (Rejected e) \<longleftrightarrow> (0 < k \<and> snd (ls ! (k - 1)) = Done (Rejected e))"
  by (cases k) (auto split: link_state.splits settled.splits)

lemma react_cases:
  obtains (idle) "react call k q = q"
  | (skip) e where "k < length (links q)" "state_of q k = Waiting" "0 < k"
      "state_of q (k - 1) = Done (Rejected e)"
      "react call k q = q\<lparr>links := (links q)[k := (fst (links q ! k), Done (Rejected e))]\<rparr>"
  | (call) "k < length (links q)" "state_of q k = Waiting"
      "k = 0 \<or> (\<exists>v. state_of q (k - 1) = Done (Fulfilled v))"
      "react call k q = q\<lparr>links := (links q)[k := (fst (links q ! k),
                                          (case fst (call (fst (links q ! k))) of
                                             Pending \<Rightarrow> Running
                                           | Settled out \<Rightarrow> Done out))],
               called := called q @ [k],
               started := started q @ snd (call (fst (links q ! k)))\<rparr>"
proof (cases "k < length (links q) \<and> snd (links q ! k) = Waiting")
  case False
  then have "react call k q = q" by (auto simp: react_def)
  then show ?thesis by (rule idle)
next
  case True
  then have k: "k < length (links q)" and w: "state_of q k = Waiting"
    by (simp_all add: state_of_def)
  show ?thesis
  proof (cases "predecessor (links q) k")
    case Pending
    with True have "react call k q = q" by (simp add: react_def)
    then show ?thesis by (rule idle)
  next
    case (Settled out)
    show ?thesis
    proof (cases out)
      case (Fulfilled u)
      have p: "predecessor (links q) k = Settled (Fulfilled u)"
        using Settled Fulfilled by simp
      from p have 1: "k = 0 \<or> (\<exists>v. state_of q (k - 1) = Done (Fulfilled v))"
        unfolding state_of_def by (simp only: predecessor_Fulfilled)
      have 2: "react call k q = q\<lparr>links := (links q)[k := (fst (links q ! k),
                                          (case fst (call (fst (links q ! k))) of
                                             Pending \<Rightarrow> Running
                                           | Settled out \<Rightarrow> Done out))],
               called := called q @ [k],
               started := started q @ snd (call (fst (links q ! k)))\<rparr>"
        using True by (simp add: react_def p)
      from k w 1 2 show ?thesis by (rule call)
    next
      case (Rejected e)
      have p: "predecessor (links q) k = Settled (Rejected e)"
        using Settled Rejected by simp
      from p have 1: "0 < k" and 2: "state_of q (k - 1) = Done (Rejected e)"
        unfolding state_of_def by (simp_all only: predecessor_Rejected)
      have 3: "react call k q = q\<lparr>links := (links q)[k := (fst (links q ! k), Done (Rejected e))]\<rparr>"
        using True by (simp add: react_def p)
      from k w 1 2 3 show ?thesis by (rule skip)
    qed
  qed
qed






text \<open>Reactions and settlements keep the queued functions; only enqueue adds one.\<close>

lemma map_fst_update_snd: "map fst (xs[k := (fst (xs ! k), y)]) = map fst xs"
proof (cases "k < length xs")
  case True
  then show ?thesis by (intro nth_equalityI) (auto simp: nth_list_update)
next
  case False
  then have "xs[k := (fst (xs ! k), y)] = xs" by (intro list_update_beyond) simp
  then show ?thesis by simp
qed

lemma fns_react: "map fst (links (react call k q)) = map fst (links q)"
  by (cases rule: react_cases [of call k q]) (simp_all add: map_fst_update_snd)

lemma fns_settle: "map fst (links (settle k out q)) = map fst (links q)"
  by (simp add: settle_def map_fst_update_snd)

lemma length_links_react: "length (links (react call k q)) = length (links q)"
  using fns_react [of call k q] by (metis length_map)

lemma length_links_settle: "length (links (settle k out q)) = length (links q)"
  using fns_settle [of k out q] by (metis length_map)






subsection \<open>The executor\<close>











lemma is_fulfilled_simps [simp]:
  "is_fulfilled (Done (Fulfilled v))" "\<not> is_fulfilled (Done (Rejected e))"
  "\<not> is_fulfilled Running" "\<not> is_fulfilled Waiting"
  by (simp_all add: is_fulfilled_def)






lemmas exec_eval = new_queue_def executeCommand_def enqueue_def react_def settle_def state_of_def
  call_executeCommand_def executeCommand_impl_def truthy_def Let_def on_exec_callback_def
  invocations_def node_exec_throws_def



text \<open>
  Claim C3 says that the process runner never rejects and reports every failure as a
  result with \<open>success = False\<close>. The code does not: nothing catches what
  \<^verbatim>\<open>cp.exec\<close> throws inside the promise's executor. With a workspace open, the
  command \<open>update\<close> for a package name that contains a NUL character is refused by
  \<^verbatim>\<open>cp.exec\<close>, and the promise of \<open>executeCommand\<close> is rejected with the error thrown;
  no result is produced and no process is started.
\<close>

theorem exec_throw_rejects_promise:
  "state_of (executor_run node_exec_throws \<lparr>getUVPath = ''uv'', getWorkspaceRoot = Some ''/w''\<rparr>
      [ExecuteCommand [''update'', [CHR ''a'', CHR 0x00, CHR ''b'']] None, Reaction 0] new_queue) 0
    = Done (Rejected ''ERR_INVALID_ARG_VALUE'')
 \<and> invocations
      (executor_run node_exec_throws \<lparr>getUVPath = ''uv'', getWorkspaceRoot = Some ''/w''\<rparr>
        [ExecuteCommand [''update'', [CHR ''a'', CHR 0x00, CHR ''b'']] None, Reaction 0] new_queue)
    = []"
  by (simp add: exec_eval)

text \<open>
  Claim C2 says that an operation whose promise rejects does not keep later
  operations from running. The code does not do this: \<open>enqueue\<close> chains with a
  fulfilment handler only. With a workspace open, the command \<open>update\<close> for a package
  name that contains a NUL character is refused by \<^verbatim>\<open>cp.exec\<close> and its promise is
  rejected; the commands \<open>sync\<close> and \<open>tree\<close> submitted to the same executor after it
  are never called, however often their reactions run: their promises are rejected
  with the error of the first command, only the first function was ever called and no
  process was started.
\<close>

theorem rejected_command_blocks_queue:
  "called (executor_run node_exec_throws \<lparr>getUVPath = ''uv'', getWorkspaceRoot = Some ''/w''\<rparr>
      [ExecuteCommand [''update'', [CHR ''a'', CHR 0x00, CHR ''b'']] None,
       ExecuteCommand [''sync''] None, Reaction 0, Reaction 1,
       ExecuteCommand [''tree''] None, Reaction 1, Reaction 2] new_queue) = [0]
 \<and> state_of (executor_run node_exec_throws \<lparr>getUVPath = ''uv'', getWorkspaceRoot = Some ''/w''\<rparr>
      [ExecuteCommand [''update'', [CHR ''a'', CHR 0x00, CHR ''b'']] None,
       ExecuteCommand [''sync''] None, Reaction 0, Reaction 1,
       ExecuteCommand [''tree''] None, Reaction 1, Reaction 2] new_queue) 1
    = Done (Rejected ''ERR_INVALID_ARG_VALUE'')
 \<and> state_of (executor_run node_exec_throws \<lparr>getUVPath = ''uv'', getWorkspaceRoot = Some ''/w''\<rparr>
      [ExecuteCommand [''update'', [CHR ''a'', CHR 0x00, CHR ''b'']] None,
       ExecuteCommand [''sync''] None, Reaction 0, Reaction 1,
       ExecuteCommand [''tree''] None, Reaction 1, Reaction 2] new_queue) 2
    = Done (Rejected ''ERR_INVALID_ARG_VALUE'')
 \<and> invocations
      (executor_run node_exec_throws \<lparr>getUVPath = ''uv'', getWorkspaceRoot = Some ''/w''\<rparr>
        [ExecuteCommand [''update'', [CHR ''a'', CHR 0x00, CHR ''b'']] None,
         ExecuteCommand [''sync''] None, Reaction 0, Reaction 1,
         ExecuteCommand [''tree''] None, Reaction 1, Reaction 2] new_queue) = []"
  by (simp add: exec_eval numeral_2_eq_2)

section \<open>Properties of the result cache\<close>

lemma cache_call_leaves_key:
  assumes "leaves_key K t c"
  shows "apply_cache_call c cache K = cache K
       \<or> (apply_cache_call c cache K = None \<and> (\<exists>e. cache K = Some e \<and> expires e \<le> t))"
  using assms
  by (cases c) (auto simp: getCached_def setCached_def invalidateCache_def split: option.splits)

lemma cache_calls_leaves_key:
  assumes "list_all (leaves_key K t) cs"
  shows "cache_calls cs cache K = cache K
       \<or> (cache_calls cs cache K = None \<and> (\<exists>e. cache K = Some e \<and> expires e \<le> t))"
  using assms
proof (induction cs arbitrary: cache)
  case Nil
  then show ?case by simp
next
  case (Cons c cs)
  from Cons.prems have c: "leaves_key K t c" and cs: "list_all (leaves_key K t) cs"
    by simp_all
  from cache_call_leaves_key [OF c, of cache] Cons.IH [OF cs, of "apply_cache_call c cache"]
  show ?case unfolding cache_calls.simps by (metis option.distinct(1))
qed

text \<open>
  Claim C4. If \<open>setCached K V\<close> runs at time \<open>T\<close>, then after any calls in between that
  neither write nor invalidate \<open>K\<close>, a \<open>getCached K\<close> at a time strictly between \<open>T\<close> and
  \<open>T + 1500\<close> ms returns \<open>V\<close>, and one at or after \<open>T + 1500\<close> ms returns nothing and
  leaves no entry for \<open>K\<close> in the store.
\<close>

theorem getCached_after_setCached:
  assumes "list_all (leaves_key K t) cs"
  shows "(T < t \<and> t < T + 1500 \<longrightarrow>
            fst (getCached K t (cache_calls cs (setCached K V T cache))) = Some V)
       \<and> (T + 1500 \<le> t \<longrightarrow>
            fst (getCached K t (cache_calls cs (setCached K V T cache))) = None
          \<and> snd (getCached K t (cache_calls cs (setCached K V T cache))) K = None)"
proof -
  let ?c0 = "setCached K V T cache"
  have c0: "?c0 K = Some \<lparr>entry_value = V, expires = T + 1500\<rparr>"
    by (simp add: setCached_def cacheTTL_def)
  from cache_calls_leaves_key [OF assms, of ?c0]
  consider (kept) "cache_calls cs ?c0 K = Some \<lparr>entry_value = V, expires = T + 1500\<rparr>"
    | (purged) "cache_calls cs ?c0 K = None" "T + 1500 \<le> t"
    using c0 by auto
  then show ?thesis
  proof cases
    case kept
    then show ?thesis by (simp add: getCached_def)
  next
    case purged
    then show ?thesis by (simp add: getCached_def)
  qed
qed

theorem getCached_after_setCached_witness:
  "fst (getCached ''dependencies'' 1200
          (cache_calls [GetCached ''dependencies'' 1100, SetCached ''environments'' [''.venv''] 1150]
             (setCached ''dependencies'' [''requests''] 1000 Map.empty))) = Some [''requests'']
 \<and> fst (getCached ''dependencies'' 2500
          (cache_calls [] (setCached ''dependencies'' [''requests''] 1000 Map.empty))) = None
 \<and> snd (getCached ''dependencies'' 2500
          (cache_calls [] (setCached ''dependencies'' [''requests''] 1000 Map.empty)))
       ''dependencies'' = None"
  using getCached_after_setCached
          [of "''dependencies''" 1200
              "[GetCached ''dependencies'' 1100, SetCached ''environments'' [''.venv''] 1150]"
              1000 "[''requests'']" Map.empty]
        getCached_after_setCached
          [of "''dependencies''" 2500 "[]" 1000 "[''requests'']" Map.empty]
  by simp

text \<open>
  Claim C5. Right after \<open>invalidateAllCaches\<close>, \<open>getCached K\<close> returns nothing for every
  key \<open>K\<close> and at every time, whatever the cache held before.
\<close>

theorem getCached_after_invalidateAllCaches:
  "fst (getCached K now (invalidateAllCaches cache)) = None"
  by (simp add: getCached_def invalidateAllCaches_def invalidateAllCache_def)

section \<open>Properties of the HTTP server supervisor\<close>

lemma startServer_not_running:
  assumes "\<not> running m" "spawn_throws env (if env_platform env = Win32 then ''python'' else ''python3'') = None"
  shows "startServer env folder port m =
     (True, m\<lparr>currentFolder := folder, currentPort := port,
              serverProcess := Some (length (children m)),
              children := children m @
                [spawn_child (if env_platform env = Win32 then ''python'' else ''python3'') folder port
                   (PrimaryListeners (if env_platform env = Win32 then ''python'' else ''python3'') folder port)],
              running := True,
              statusChanged := Suc (statusChanged m),
              messages := messages m @ [started_on port]\<rparr>)"
  using assms by (simp add: startServer_def Let_def showMessage_def fire_def)

text \<open>
  Claim C7. \<open>startServer\<close> called while the \<open>running\<close> flag is set returns false and
  changes nothing about the server: no child is spawned or killed, and the stored
  process, port, folder and running flag keep their values (a warning is shown).
\<close>

theorem startServer_while_running:
  assumes "running m"
  shows "fst (startServer env folder port m) = False
       \<and> children (snd (startServer env folder port m)) = children m
       \<and> serverProcess (snd (startServer env folder port m)) = serverProcess m
       \<and> killed (snd (startServer env folder port m)) = killed m
       \<and> isRunning (snd (startServer env folder port m))
       \<and> getPort (snd (startServer env folder port m)) = getPort m
       \<and> getFolder (snd (startServer env folder port m)) = getFolder m"
  using assms
  by (simp add: startServer_def showMessage_def isRunning_def getPort_def getFolder_def)

theorem startServer_while_running_witness:
  "running (snd (startServer \<lparr>env_platform = OtherPlatform, spawn_throws = (\<lambda>c. None)\<rparr>
                   ''/tmp/site'' 8000 new_HTTPServerManager))
 \<and> fst (startServer \<lparr>env_platform = OtherPlatform, spawn_throws = (\<lambda>c. None)\<rparr> ''/srv'' 9000
        (snd (startServer \<lparr>env_platform = OtherPlatform, spawn_throws = (\<lambda>c. None)\<rparr>
                ''/tmp/site'' 8000 new_HTTPServerManager))) = False
 \<and> getPort (snd (startServer \<lparr>env_platform = OtherPlatform, spawn_throws = (\<lambda>c. None)\<rparr> ''/srv'' 9000
        (snd (startServer \<lparr>env_platform = OtherPlatform, spawn_throws = (\<lambda>c. None)\<rparr>
                ''/tmp/site'' 8000 new_HTTPServerManager)))) = 8000"
proof -
  have r: "running (snd (startServer \<lparr>env_platform = OtherPlatform, spawn_throws = (\<lambda>c. None)\<rparr>
                   ''/tmp/site'' 8000 new_HTTPServerManager))"
    by (simp add: startServer_def Let_def new_HTTPServerManager_def showMessage_def fire_def)
  have p: "getPort (snd (startServer \<lparr>env_platform = OtherPlatform, spawn_throws = (\<lambda>c. None)\<rparr>
                   ''/tmp/site'' 8000 new_HTTPServerManager)) = 8000"
    by (simp add: startServer_def Let_def new_HTTPServerManager_def showMessage_def fire_def
                  getPort_def)
  from r p startServer_while_running [OF r, of _ "''/srv''" 9000] show ?thesis by simp
qed

text \<open>
  Claim C8, as stated, fails where the primary command is \<open>python3\<close> (every platform
  but Windows): when its child reports executable-not-found, no other command is
  tried; the only spawn is the primary one, the error names \<open>python3\<close> and the server
  is not running.
\<close>

theorem no_alternate_for_python3_counterexample:
  "map child_command
     (children (server_run \<lparr>env_platform = OtherPlatform, spawn_throws = (\<lambda>c. None)\<rparr>
        [StartServer ''/tmp/site'' 8000,
         ChildError 0 \<lparr>err_code = ENOENT, err_text = ''Error: spawn python3 ENOENT''\<rparr>]
        new_HTTPServerManager)) = [''python3'']
 \<and> \<not> running (server_run \<lparr>env_platform = OtherPlatform, spawn_throws = (\<lambda>c. None)\<rparr>
        [StartServer ''/tmp/site'' 8000,
         ChildError 0 \<lparr>err_code = ENOENT, err_text = ''Error: spawn python3 ENOENT''\<rparr>]
        new_HTTPServerManager)
 \<and> last (messages (server_run \<lparr>env_platform = OtherPlatform, spawn_throws = (\<lambda>c. None)\<rparr>
        [StartServer ''/tmp/site'' 8000,
         ChildError 0 \<lparr>err_code = ENOENT, err_text = ''Error: spawn python3 ENOENT''\<rparr>]
        new_HTTPServerManager)) = python3_not_found"
  by (simp add: startServer_def Let_def new_HTTPServerManager_def showMessage_def fire_def
                on_error_def spawn_child_def)

text \<open>
  Claim C8, amended. Let the server be stopped and let \<open>python3\<close> spawn a child.
  On Windows the primary command is \<open>python\<close>: when its child reports
  executable-not-found (or \<^verbatim>\<open>cp.spawn\<close> throws it), exactly one further child is
  spawned, with command \<open>python3\<close>, and the server is running; whatever error that
  second child reports, nothing more is spawned and the server is no longer running,
  and for executable-not-found the message says that neither command was found.
  On every other platform the primary command is \<open>python3\<close>: when its child reports
  executable-not-found nothing else is spawned, the message says that \<open>python3\<close> was
  not found and the server is not running.
\<close>

theorem interpreter_fallback:
  assumes nr: "\<not> running m" and e: "err_code e = ENOENT"
    and py3: "spawn_throws env ''python3'' = None"
  shows
   "(env_platform env = Win32 \<and> spawn_throws env ''python'' = None \<longrightarrow>
       children (server_run env [StartServer folder port, ChildError (length (children m)) e] m)
         = children m @ [spawn_child ''python'' folder port (PrimaryListeners ''python'' folder port),
                         spawn_child ''python3'' folder port (FallbackListeners port)]
     \<and> running (server_run env [StartServer folder port, ChildError (length (children m)) e] m)
     \<and> (\<forall>e'. children (server_run env [StartServer folder port, ChildError (length (children m)) e,
                                       ChildError (Suc (length (children m))) e'] m)
                = children m @ [spawn_child ''python'' folder port (PrimaryListeners ''python'' folder port),
                                spawn_child ''python3'' folder port (FallbackListeners port)]
            \<and> \<not> running (server_run env [StartServer folder port, ChildError (length (children m)) e,
                                       ChildError (Suc (length (children m))) e'] m))
     \<and> last (messages (server_run env [StartServer folder port, ChildError (length (children m)) e,
                                       ChildError (Suc (length (children m))) e] m)) = neither_found)
  \<and> (env_platform env = Win32 \<and> spawn_throws env ''python'' = Some e \<longrightarrow>
       fst (startServer env folder port m)
     \<and> children (snd (startServer env folder port m))
         = children m @ [spawn_child ''python3'' folder port (FallbackListeners port)]
     \<and> running (snd (startServer env folder port m)))
  \<and> (env_platform env = OtherPlatform \<longrightarrow>
       children (server_run env [StartServer folder port, ChildError (length (children m)) e] m)
         = children m @ [spawn_child ''python3'' folder port (PrimaryListeners ''python3'' folder port)]
     \<and> \<not> running (server_run env [StartServer folder port, ChildError (length (children m)) e] m)
     \<and> last (messages (server_run env [StartServer folder port, ChildError (length (children m)) e] m))
         = python3_not_found)"
proof (intro conjI impI)
  assume w: "env_platform env = Win32 \<and> spawn_throws env ''python'' = None"
  then have s1: "startServer env folder port m =
     (True, m\<lparr>currentFolder := folder, currentPort := port,
              serverProcess := Some (length (children m)),
              children := children m @
                [spawn_child ''python'' folder port (PrimaryListeners ''python'' folder port)],
              running := True,
              statusChanged := Suc (statusChanged m),
              messages := messages m @ [started_on port]\<rparr>)"
    using startServer_not_running [OF nr, of env folder port] by simp
  show "children (server_run env [StartServer folder port, ChildError (length (children m)) e] m)
         = children m @ [spawn_child ''python'' folder port (PrimaryListeners ''python'' folder port),
                         spawn_child ''python3'' folder port (FallbackListeners port)]"
    by (simp add: s1 e py3 on_error_def tryPython3Fallback_def showMessage_def fire_def spawn_child_def)
  show "running (server_run env [StartServer folder port, ChildError (length (children m)) e] m)"
    by (simp add: s1 e py3 on_error_def tryPython3Fallback_def showMessage_def fire_def spawn_child_def)
  show "\<forall>e'. children (server_run env [StartServer folder port, ChildError (length (children m)) e,
                                       ChildError (Suc (length (children m))) e'] m)
                = children m @ [spawn_child ''python'' folder port (PrimaryListeners ''python'' folder port),
                                spawn_child ''python3'' folder port (FallbackListeners port)]
            \<and> \<not> running (server_run env [StartServer folder port, ChildError (length (children m)) e,
                                       ChildError (Suc (length (children m))) e'] m)"
    by (simp add: s1 e py3 on_error_def tryPython3Fallback_def showMessage_def fire_def nth_append
                  spawn_child_def)
  show "last (messages (server_run env [StartServer folder port, ChildError (length (children m)) e,
                                       ChildError (Suc (length (children m))) e] m)) = neither_found"
    by (simp add: s1 e py3 on_error_def tryPython3Fallback_def showMessage_def fire_def nth_append
                  spawn_child_def)
next
  assume w: "env_platform env = Win32 \<and> spawn_throws env ''python'' = Some e"
  then show "fst (startServer env folder port m)"
    and "children (snd (startServer env folder port m))
         = children m @ [spawn_child ''python3'' folder port (FallbackListeners port)]"
    and "running (snd (startServer env folder port m))"
    using nr e py3
    by (simp_all add: startServer_def Let_def tryPython3Fallback_def showMessage_def fire_def)
next
  assume o: "env_platform env = OtherPlatform"
  then have s1: "startServer env folder port m =
     (True, m\<lparr>currentFolder := folder, currentPort := port,
              serverProcess := Some (length (children m)),
              children := children m @
                [spawn_child ''python3'' folder port (PrimaryListeners ''python3'' folder port)],
              running := True,
              statusChanged := Suc (statusChanged m),
              messages := messages m @ [started_on port]\<rparr>)"
    using startServer_not_running [OF nr, of env folder port] py3 by simp
  show "children (server_run env [StartServer folder port, ChildError (length (children m)) e] m)
         = children m @ [spawn_child ''python3'' folder port (PrimaryListeners ''python3'' folder port)]"
    by (simp add: s1 e on_error_def showMessage_def fire_def spawn_child_def)
  show "\<not> running (server_run env [StartServer folder port, ChildError (length (children m)) e] m)"
    by (simp add: s1 e on_error_def showMessage_def fire_def spawn_child_def)
  show "last (messages (server_run env [StartServer folder port, ChildError (length (children m)) e] m))
         = python3_not_found"
    by (simp add: s1 e on_error_def showMessage_def fire_def spawn_child_def)
qed

theorem interpreter_fallback_witness:
  "\<not> running new_HTTPServerManager
 \<and> map child_command
     (children (server_run \<lparr>env_platform = Win32, spawn_throws = (\<lambda>c. None)\<rparr>
        [StartServer ''/tmp/site'' 8000,
         ChildError 0 \<lparr>err_code = ENOENT, err_text = ''Error: spawn python ENOENT''\<rparr>]
        new_HTTPServerManager)) = [''python'', ''python3'']
 \<and> running (server_run \<lparr>env_platform = Win32, spawn_throws = (\<lambda>c. None)\<rparr>
        [StartServer ''/tmp/site'' 8000,
         ChildError 0 \<lparr>err_code = ENOENT, err_text = ''Error: spawn python ENOENT''\<rparr>]
        new_HTTPServerManager)
 \<and> \<not> running (server_run \<lparr>env_platform = OtherPlatform, spawn_throws = (\<lambda>c. None)\<rparr>
        [StartServer ''/tmp/site'' 8000,
         ChildError 0 \<lparr>err_code = ENOENT, err_text = ''Error: spawn python ENOENT''\<rparr>]
        new_HTTPServerManager)"
proof -
  have nr: "\<not> running new_HTTPServerManager"
    by (simp add: new_HTTPServerManager_def)
  have c: "children new_HTTPServerManager = []"
    by (simp add: new_HTTPServerManager_def)
  from interpreter_fallback
         [OF nr, of "\<lparr>err_code = ENOENT, err_text = ''Error: spawn python ENOENT''\<rparr>"
            "\<lparr>env_platform = Win32, spawn_throws = (\<lambda>c. None)\<rparr>" "''/tmp/site''" 8000]
  have w: "map child_command
     (children (server_run \<lparr>env_platform = Win32, spawn_throws = (\<lambda>c. None)\<rparr>
        [StartServer ''/tmp/site'' 8000,
         ChildError 0 \<lparr>err_code = ENOENT, err_text = ''Error: spawn python ENOENT''\<rparr>]
        new_HTTPServerManager)) = [''python'', ''python3'']
   \<and> running (server_run \<lparr>env_platform = Win32, spawn_throws = (\<lambda>c. None)\<rparr>
        [StartServer ''/tmp/site'' 8000,
         ChildError 0 \<lparr>err_code = ENOENT, err_text = ''Error: spawn python ENOENT''\<rparr>]
        new_HTTPServerManager)"
    unfolding c by (simp add: spawn_child_def)
  from interpreter_fallback
         [OF nr, of "\<lparr>err_code = ENOENT, err_text = ''Error: spawn python ENOENT''\<rparr>"
            "\<lparr>env_platform = OtherPlatform, spawn_throws = (\<lambda>c. None)\<rparr>" "''/tmp/site''" 8000]
  have o: "\<not> running (server_run \<lparr>env_platform = OtherPlatform, spawn_throws = (\<lambda>c. None)\<rparr>
        [StartServer ''/tmp/site'' 8000,
         ChildError 0 \<lparr>err_code = ENOENT, err_text = ''Error: spawn python ENOENT''\<rparr>]
        new_HTTPServerManager)"
    unfolding c by simp
  from nr w o show ?thesis by simp
qed

section \<open>Properties of the debounced refresh\<close>

lemma run_timers_idle:
  assumes "timers s = []"
  shows "run_timers t s = s"
  using assms by (simp add: run_timers_def)

lemma no_requests_no_updates:
  assumes "timers s = []" "requests evs = []"
  shows "updates (debounce_run evs s) = updates s"
  using assms
proof (induction evs arbitrary: s)
  case Nil
  then show ?case by simp
next
  case (Cons e evs)
  then show ?case by (cases e) (simp_all add: run_timers_idle)
qed

lemma request_sets_one_timer:
  assumes "timers s = [] \<or> (\<exists>h d. timers s = [(h, d)] \<and> debounceTimer s = Some h)"
  shows "timers (debouncedUpdateStatus r s) = [(next_handle s, r + 300)]
       \<and> debounceTimer (debouncedUpdateStatus r s) = Some (next_handle s)
       \<and> updates (debouncedUpdateStatus r s) = updates s"
  using assms
  by (auto simp: debouncedUpdateStatus_def clearTimeout_def debounceDelay_def Let_def
           split: option.splits)

lemma pending_timer_run:
  assumes "sorted (map event_time evs)"
    and "timers s = [(h, r0 + 300)]" "debounceTimer s = Some h"
    and "\<forall>e\<in>set evs. r0 \<le> event_time e"
    and "\<forall>r\<in>set (requests evs). r - r0 < 300"
    and "\<forall>r\<in>set (requests evs). \<forall>r'\<in>set (requests evs). r' - r < 300"
  shows "\<exists>us. updates (debounce_run evs s) = updates s @ us \<and> length us \<le> 1
            \<and> (\<forall>u\<in>set us. r0 + 300 \<le> u \<and> (\<forall>r\<in>set (requests evs). r + 300 \<le> u))"
  using assms
proof (induction evs arbitrary: s h r0)
  case Nil
  then show ?case by simp
next
  case (Cons e evs)
  from Cons.prems(1) have sorted: "sorted (map event_time evs)"
    and later: "\<forall>e'\<in>set evs. event_time e \<le> event_time e'"
    by simp_all
  show ?case
  proof (cases e)
    case (Tick t)
    show ?thesis
    proof (cases "r0 + 300 \<le> t")
      case True
      have no_req: "requests evs = []"
      proof (rule ccontr)
        assume "requests evs \<noteq> []"
        then obtain r where r: "r \<in> set (requests evs)" by (cases "requests evs") auto
        have "\<forall>r\<in>set (requests evs). \<exists>e'\<in>set evs. event_time e' = r"
          by (induction evs rule: requests.induct) auto
        with r obtain e' where "e' \<in> set evs" "event_time e' = r" by blast
        with later Tick have "t \<le> r" by auto
        moreover from Cons.prems(5) r Tick have "r - r0 < 300" by simp
        ultimately show False using True by simp
      qed
      have s': "run_timers t s = s\<lparr>updates := updates s @ [t], timers := []\<rparr>"
        using Cons.prems(2) True by (simp add: run_timers_def)
      have "updates (debounce_run evs (run_timers t s)) = updates (run_timers t s)"
        by (intro no_requests_no_updates no_req) (simp add: s')
      then have "updates (debounce_run (e # evs) s) = updates s @ [t]"
        using Tick by (simp add: s')
      with True no_req Tick show ?thesis by auto
    next
      case False
      then have "run_timers t s = s"
        using Cons.prems(2) by (simp add: run_timers_def)
      moreover from Cons.prems(4,5,6) Tick
      have "\<forall>e\<in>set evs. r0 \<le> event_time e" "\<forall>r\<in>set (requests evs). r - r0 < 300"
        "\<forall>r\<in>set (requests evs). \<forall>r'\<in>set (requests evs). r' - r < 300"
        by simp_all
      ultimately show ?thesis
        using Cons.IH [OF sorted Cons.prems(2,3)] Tick by simp
    qed
  next
    case (Request r)
    let ?s = "debouncedUpdateStatus r s"
    from Cons.prems(2,3) have "timers s = [] \<or> (\<exists>h d. timers s = [(h, d)] \<and> debounceTimer s = Some h)"
      by simp
    from request_sets_one_timer [OF this, of r]
    have t: "timers ?s = [(next_handle s, r + 300)]"
      and d: "debounceTimer ?s = Some (next_handle s)" and u: "updates ?s = updates s"
      by simp_all
    from later Request have ge: "\<forall>e\<in>set evs. r \<le> event_time e" by simp
    from Cons.prems(6) Request have w: "\<forall>r'\<in>set (requests evs). r' - r < 300"
      and p: "\<forall>r\<in>set (requests evs). \<forall>r'\<in>set (requests evs). r' - r < 300"
      by simp_all
    from Cons.IH [OF sorted t d ge w p]
    obtain us where us: "updates (debounce_run evs ?s) = updates ?s @ us" "length us \<le> 1"
      "\<forall>u\<in>set us. r + 300 \<le> u \<and> (\<forall>r\<in>set (requests evs). r + 300 \<le> u)"
      by blast
    from Cons.prems(4) Request have "r0 \<le> r" by simp
    with us u Request show ?thesis by (intro exI [of _ us]) auto
  qed
qed

text \<open>
  Claim C6. Take any sequence of refresh requests and timer turns in time order that
  starts with no timeout pending, whose requests all lie within a window of less than
  300 ms. Then \<open>updateStatus\<close> is called at most once, and if it is called, then no
  earlier than 300 ms after every request of the burst, the last one included: each
  request cancels the pending timeout and sets a new one.
\<close>

theorem debounce_burst:
  assumes "timers s = []"
    and "sorted (map event_time evs)"
    and "\<forall>r\<in>set (requests evs). \<forall>r'\<in>set (requests evs). r' - r < 300"
  shows "\<exists>us. updates (debounce_run evs s) = updates s @ us \<and> length us \<le> 1
            \<and> (\<forall>u\<in>set us. \<forall>r\<in>set (requests evs). r + 300 \<le> u)"
  using assms
proof (induction evs arbitrary: s)
  case Nil
  then show ?case by simp
next
  case (Cons e evs)
  from Cons.prems(2) have sorted: "sorted (map event_time evs)"
    and later: "\<forall>e'\<in>set evs. event_time e \<le> event_time e'"
    by simp_all
  show ?case
  proof (cases e)
    case (Tick t)
    with Cons.prems(1) have "debounce_step e s = s" by (simp add: run_timers_idle)
    moreover from Cons.prems(3) Tick
    have "\<forall>r\<in>set (requests evs). \<forall>r'\<in>set (requests evs). r' - r < 300" by simp
    ultimately show ?thesis
      using Cons.IH [OF Cons.prems(1) sorted] Tick by simp
  next
    case (Request r)
    let ?s = "debouncedUpdateStatus r s"
    from Cons.prems(1) have "timers s = [] \<or> (\<exists>h d. timers s = [(h, d)] \<and> debounceTimer s = Some h)"
      by simp
    from request_sets_one_timer [OF this, of r]
    have t: "timers ?s = [(next_handle s, r + 300)]"
      and d: "debounceTimer ?s = Some (next_handle s)" and u: "updates ?s = updates s"
      by simp_all
    from later Request have ge: "\<forall>e\<in>set evs. r \<le> event_time e" by simp
    from Cons.prems(3) Request have w: "\<forall>r'\<in>set (requests evs). r' - r < 300"
      and p: "\<forall>r\<in>set (requests evs). \<forall>r'\<in>set (requests evs). r' - r < 300"
      by simp_all
    from pending_timer_run [OF sorted t d ge w p]
    obtain us where us: "updates (debounce_run evs ?s) = updates ?s @ us" "length us \<le> 1"
      "\<forall>u\<in>set us. r + 300 \<le> u \<and> (\<forall>r\<in>set (requests evs). r + 300 \<le> u)"
      by blast
    with u Request show ?thesis by (intro exI [of _ us]) auto
  qed
qed

theorem debounce_burst_witness:
  "requests [Request 0, Tick 100, Request 200, Request 250, Tick 400, Tick 549, Tick 550, Tick 900]
     = [0, 200, 250]
 \<and> updates (debounce_run
       [Request 0, Tick 100, Request 200, Request 250, Tick 400, Tick 549, Tick 550, Tick 900]
       new_debounce_state) = [550]"
proof -
  let ?evs = "[Request 0, Tick 100, Request 200, Request 250, Tick 400, Tick 549, Tick 550, Tick 900]"
  have h1: "timers new_debounce_state = []"
    by (simp add: new_debounce_state_def)
  have h2: "sorted (map event_time ?evs)"
    by simp
  have h3: "\<forall>r\<in>set (requests ?evs). \<forall>r'\<in>set (requests ?evs). r' - r < 300"
    by simp
  from debounce_burst [OF h1 h2 h3]
  show ?thesis
    by (simp add: new_debounce_state_def debouncedUpdateStatus_def run_timers_def
                  clearTimeout_def debounceDelay_def Let_def)
qed

section \<open>Properties of the status aggregator\<close>

lemma hideProjectBars_hidden [simp]: "project_bars_hidden (hideProjectBars v)"
  by (simp add: project_bars_hidden_def hideProjectBars_def hide_def)

lemma hideProjectBars_main [simp]:
  "statusBarItem (hideProjectBars v) = statusBarItem v"
  "httpServerBar (hideProjectBars v) = httpServerBar v"
  by (simp_all add: hideProjectBars_def)

lemma updateProjectBars_no_error: "fst (updateProjectBars env v) = None"
  by (simp add: updateProjectBars_def Let_def split: sum.splits)

lemma updateProjectBars_main:
  "statusBarItem (snd (updateProjectBars env v)) = statusBarItem v
 \<and> httpServerBar (snd (updateProjectBars env v)) = httpServerBar v"
  by (simp add: updateProjectBars_def Let_def split: sum.splits option.splits)

lemma getVenvStatus_throws:
  "isl (isVenvActive env) \<or> isl (getCurrentPythonToolchain_venv env) \<or> isl (getPythonVersion_venv env)
   \<Longrightarrow> isl (getVenvStatus env environments)"
  by (auto simp: getVenvStatus_def Let_def split: sum.splits list.splits)

lemma updateProjectBars_throws:
  assumes "throws_in_updateProjectBars env"
  shows "project_bars_hidden (snd (updateProjectBars env v))"
proof (cases "isl (isVenvActive env) \<or> isl (getCurrentPythonToolchain_venv env)
            \<or> isl (getPythonVersion_venv env)")
  case True
  then have "\<And>environments. isl (getVenvStatus env environments)"
    by (rule getVenvStatus_throws)
  then show ?thesis
    by (simp add: updateProjectBars_def Let_def sum.case_eq_if)
next
  case False
  with assms have "isl (getProjectInfo env) \<or> isl (getDependencies env) \<or> isl (getEnvironments env)
      \<or> isl (getPythonVersion_bars env) \<or> isl (getCurrentPythonToolchain_bars env)"
    unfolding throws_in_updateProjectBars_def by blast
  then show ?thesis
    by (auto simp: updateProjectBars_def Let_def sum.case_eq_if)
qed

text \<open>
  Claim C10, as stated, fails for an error thrown inside \<open>updateProjectBars\<close>: with a
  project present and the binary installed, an error from \<open>getProjectInfo\<close> is caught
  and does not leave \<open>updateStatus\<close>, but the main item stays the project item with
  its quick-actions command; it is not the initial item.
\<close>

theorem project_bars_error_keeps_project_item_counterexample:
  "throws_in_updateProjectBars
     \<lparr>hasProjectFiles = Inr True, checkUVInstalled = Inr True,
        getProjectInfo = Inl ''TypeError'', getDependencies = Inr [''requests''],
        getEnvironments = Inr [''.venv''], getPythonVersion_bars = Inr (Some ''3.11.2''),
        getCurrentPythonToolchain_bars = Inr None, isVenvActive = Inr False,
        getCurrentPythonToolchain_venv = Inr None, getPythonVersion_venv = Inr None\<rparr>
 \<and> fst (updateStatus
     \<lparr>hasProjectFiles = Inr True, checkUVInstalled = Inr True,
        getProjectInfo = Inl ''TypeError'', getDependencies = Inr [''requests''],
        getEnvironments = Inr [''.venv''], getPythonVersion_bars = Inr (Some ''3.11.2''),
        getCurrentPythonToolchain_bars = Inr None, isVenvActive = Inr False,
        getCurrentPythonToolchain_venv = Inr None, getPythonVersion_venv = Inr None\<rparr>
     new_status_view) = None
 \<and> item_command (statusBarItem (snd (updateStatus
     \<lparr>hasProjectFiles = Inr True, checkUVInstalled = Inr True,
        getProjectInfo = Inl ''TypeError'', getDependencies = Inr [''requests''],
        getEnvironments = Inr [''.venv''], getPythonVersion_bars = Inr (Some ''3.11.2''),
        getCurrentPythonToolchain_bars = Inr None, isVenvActive = Inr False,
        getCurrentPythonToolchain_venv = Inr None, getPythonVersion_venv = Inr None\<rparr>
     new_status_view))) = Some ''uv.showQuickActions''
 \<and> statusBarItem (snd (updateStatus
     \<lparr>hasProjectFiles = Inr True, checkUVInstalled = Inr True,
        getProjectInfo = Inl ''TypeError'', getDependencies = Inr [''requests''],
        getEnvironments = Inr [''.venv''], getPythonVersion_bars = Inr (Some ''3.11.2''),
        getCurrentPythonToolchain_bars = Inr None, isVenvActive = Inr False,
        getCurrentPythonToolchain_venv = Inr None, getPythonVersion_venv = Inr None\<rparr>
     new_status_view)) \<noteq> init_item"
  by (simp add: throws_in_updateProjectBars_def updateStatus_def updateProjectBars_def Let_def
                hideProjectBars_def project_item_def init_item_def shown_def)

text \<open>
  Claim C10, amended. No error leaves \<open>updateStatus\<close> or \<open>updateProjectBars\<close>, and the
  server bar is left alone. If \<open>hasProjectFiles\<close> or \<open>checkUVInstalled\<close> throws, the
  main item falls back to the initial one and the four project bars are hidden. If a
  call awaited inside \<open>updateProjectBars\<close> throws, the four project bars are hidden
  and the main item is left as it was, which in \<open>updateStatus\<close> means it remains the
  project item.
\<close>

theorem aggregator_catches:
  "fst (updateStatus env v) = None \<and> fst (updateProjectBars env v) = None
 \<and> httpServerBar (snd (updateStatus env v)) = httpServerBar v
 \<and> (isl (hasProjectFiles env) \<or> isl (checkUVInstalled env) \<longrightarrow>
       statusBarItem (snd (updateStatus env v)) = init_item
     \<and> project_bars_hidden (snd (updateStatus env v)))
 \<and> (throws_in_updateProjectBars env \<longrightarrow>
       statusBarItem (snd (updateProjectBars env v)) = statusBarItem v
     \<and> project_bars_hidden (snd (updateProjectBars env v)))
 \<and> (hasProjectFiles env = Inr True \<and> checkUVInstalled env = Inr True
      \<and> throws_in_updateProjectBars env \<longrightarrow>
       statusBarItem (snd (updateStatus env v)) = project_item
     \<and> project_bars_hidden (snd (updateStatus env v)))"
proof (intro conjI impI)
  show "fst (updateStatus env v) = None"
    by (simp add: updateStatus_def Let_def split: sum.splits prod.splits option.splits)
  show "fst (updateProjectBars env v) = None"
    by (rule updateProjectBars_no_error)
  show "httpServerBar (snd (updateStatus env v)) = httpServerBar v"
    using updateProjectBars_main [of env "v\<lparr>statusBarItem := project_item\<rparr>"]
    by (auto simp: updateStatus_def Let_def updateStatus_catch_def
             split: sum.splits prod.splits option.splits)
next
  assume "isl (hasProjectFiles env) \<or> isl (checkUVInstalled env)"
  then show "statusBarItem (snd (updateStatus env v)) = init_item"
    and "project_bars_hidden (snd (updateStatus env v))"
    by (auto simp: updateStatus_def updateStatus_catch_def isl_def split: sum.splits)
next
  assume t: "throws_in_updateProjectBars env"
  show "statusBarItem (snd (updateProjectBars env v)) = statusBarItem v"
    using updateProjectBars_main by blast
  from t show "project_bars_hidden (snd (updateProjectBars env v))"
    by (rule updateProjectBars_throws)
next
  assume a: "hasProjectFiles env = Inr True \<and> checkUVInstalled env = Inr True
      \<and> throws_in_updateProjectBars env"
  let ?v2 = "v\<lparr>statusBarItem := project_item\<rparr>"
  from a have u: "updateStatus env v = (None, snd (updateProjectBars env ?v2))"
    using updateProjectBars_no_error [of env ?v2]
    by (cases "updateProjectBars env ?v2") (simp add: updateStatus_def Let_def)
  from u updateProjectBars_main [of env ?v2]
  show "statusBarItem (snd (updateStatus env v)) = project_item" by simp
  from u a updateProjectBars_throws [of env ?v2]
  show "project_bars_hidden (snd (updateStatus env v))" by simp
qed

theorem aggregator_catches_witness:
  "isl (hasProjectFiles
     \<lparr>hasProjectFiles = Inl ''EIO'', checkUVInstalled = Inr True,
        getProjectInfo = Inr None, getDependencies = Inr [],
        getEnvironments = Inr [], getPythonVersion_bars = Inr None,
        getCurrentPythonToolchain_bars = Inr None, isVenvActive = Inr False,
        getCurrentPythonToolchain_venv = Inr None, getPythonVersion_venv = Inr None\<rparr>)
 \<and> statusBarItem (snd (updateStatus
     \<lparr>hasProjectFiles = Inl ''EIO'', checkUVInstalled = Inr True,
        getProjectInfo = Inr None, getDependencies = Inr [],
        getEnvironments = Inr [], getPythonVersion_bars = Inr None,
        getCurrentPythonToolchain_bars = Inr None, isVenvActive = Inr False,
        getCurrentPythonToolchain_venv = Inr None, getPythonVersion_venv = Inr None\<rparr>
     (new_status_view\<lparr>statusBarItem := project_item\<rparr>))) = init_item
 \<and> throws_in_updateProjectBars
     \<lparr>hasProjectFiles = Inr True, checkUVInstalled = Inr True,
        getProjectInfo = Inl ''TypeError'', getDependencies = Inr [''requests''],
        getEnvironments = Inr [''.venv''], getPythonVersion_bars = Inr (Some ''3.11.2''),
        getCurrentPythonToolchain_bars = Inr None, isVenvActive = Inr False,
        getCurrentPythonToolchain_venv = Inr None, getPythonVersion_venv = Inr None\<rparr>
 \<and> statusBarItem (snd (updateStatus
     \<lparr>hasProjectFiles = Inr True, checkUVInstalled = Inr True,
        getProjectInfo = Inl ''TypeError'', getDependencies = Inr [''requests''],
        getEnvironments = Inr [''.venv''], getPythonVersion_bars = Inr (Some ''3.11.2''),
        getCurrentPythonToolchain_bars = Inr None, isVenvActive = Inr False,
        getCurrentPythonToolchain_venv = Inr None, getPythonVersion_venv = Inr None\<rparr>
     new_status_view)) = project_item
 \<and> project_bars_hidden (snd (updateStatus
     \<lparr>hasProjectFiles = Inr True, checkUVInstalled = Inr True,
        getProjectInfo = Inl ''TypeError'', getDependencies = Inr [''requests''],
        getEnvironments = Inr [''.venv''], getPythonVersion_bars = Inr (Some ''3.11.2''),
        getCurrentPythonToolchain_bars = Inr None, isVenvActive = Inr False,
        getCurrentPythonToolchain_venv = Inr None, getPythonVersion_venv = Inr None\<rparr>
     new_status_view))"
proof -
  let ?env0 = "\<lparr>hasProjectFiles = Inr True, checkUVInstalled = Inr True,
        getProjectInfo = Inl ''TypeError'', getDependencies = Inr [''requests''],
        getEnvironments = Inr [''.venv''], getPythonVersion_bars = Inr (Some ''3.11.2''),
        getCurrentPythonToolchain_bars = Inr None, isVenvActive = Inr False,
        getCurrentPythonToolchain_venv = Inr None, getPythonVersion_venv = Inr None\<rparr>"
  let ?env1 = "\<lparr>hasProjectFiles = Inl ''EIO'', checkUVInstalled = Inr True,
        getProjectInfo = Inr None, getDependencies = Inr [],
        getEnvironments = Inr [], getPythonVersion_bars = Inr None,
        getCurrentPythonToolchain_bars = Inr None, isVenvActive = Inr False,
        getCurrentPythonToolchain_venv = Inr None, getPythonVersion_venv = Inr None\<rparr>"
  have h1: "isl (hasProjectFiles ?env1) \<or> isl (checkUVInstalled ?env1)"
    by simp
  have h0: "hasProjectFiles ?env0 = Inr True \<and> checkUVInstalled ?env0 = Inr True
          \<and> throws_in_updateProjectBars ?env0"
    by (simp add: throws_in_updateProjectBars_def)
  from h1 aggregator_catches [of ?env1 "new_status_view\<lparr>statusBarItem := project_item\<rparr>"]
  have 1: "statusBarItem (snd (updateStatus ?env1
             (new_status_view\<lparr>statusBarItem := project_item\<rparr>))) = init_item"
    by blast
  from h0 aggregator_catches [of ?env0 new_status_view]
  have 0: "statusBarItem (snd (updateStatus ?env0 new_status_view)) = project_item
         \<and> project_bars_hidden (snd (updateStatus ?env0 new_status_view))"
    by blast
  from h0 0 1 show ?thesis by simp
qed

section \<open>Properties of the version-pin file\<close>

lemma plus_rems_prefix:
  "r \<in> set (plus_rems p s) \<Longrightarrow> \<exists>pre. s = pre @ r \<and> (\<forall>c\<in>set pre. p c)"
proof (induction s)
  case Nil
  then show ?case by simp
next
  case (Cons c cs)
  show ?case
  proof (cases "p c")
    case False
    with Cons.prems show ?thesis by simp
  next
    case True
    with Cons.prems consider "r = cs" | "r \<in> set (plus_rems p cs)" by auto
    then show ?thesis
    proof cases
      case 1
      with True show ?thesis by (intro exI [of _ "[c]"]) simp
    next
      case 2
      from Cons.IH [OF 2] obtain pre where "cs = pre @ r" "\<forall>c\<in>set pre. p c" by blast
      with True show ?thesis by (intro exI [of _ "c # pre"]) simp
    qed
  qed
qed

lemma rx_rems_prefix:
  "r \<in> set (rx_rems x s) \<Longrightarrow> \<exists>pre. s = pre @ r \<and> (\<forall>c\<in>set pre. rx_chars x c)"
proof (induction x arbitrary: s r)
  case (Chars p)
  then show ?case
    by (cases s) (auto split: if_splits intro: exI [of _ "[hd s]"])
next
  case (Chars1 p)
  then show ?case using plus_rems_prefix [of r p s] by simp
next
  case (Cat a b)
  from Cat.prems obtain m where m: "m \<in> set (rx_rems a s)" and r: "r \<in> set (rx_rems b m)"
    by auto
  from Cat.IH(1) [OF m] obtain pre1 where 1: "s = pre1 @ m" "\<forall>c\<in>set pre1. rx_chars a c" by blast
  from Cat.IH(2) [OF r] obtain pre2 where 2: "m = pre2 @ r" "\<forall>c\<in>set pre2. rx_chars b c" by blast
  from 1 2 show ?case by (intro exI [of _ "pre1 @ pre2"]) auto
next
  case (Maybe a)
  from Maybe.prems consider "r \<in> set (rx_rems a s)" | "r = s" by auto
  then show ?case
  proof cases
    case 1
    from Maybe.IH [OF 1] show ?thesis by simp
  next
    case 2
    then show ?thesis by (intro exI [of _ "[]"]) simp
  qed
qed

lemma valid_version_chars:
  assumes "validatePythonVersion version"
  shows "\<forall>c\<in>set version. is_digit c \<or> c \<in> set ''.abrc''"
proof -
  from assms have "[] \<in> set (rx_rems version_format version)"
    by (simp add: validatePythonVersion_def rx_test_def)
  from rx_rems_prefix [OF this]
  have "\<forall>c\<in>set version. rx_chars version_format c" by simp
  then show ?thesis
    by (auto simp: version_format_def is_char_def is_a_or_b_def)
qed

lemma valid_version_nonempty:
  assumes "validatePythonVersion version"
  shows "version \<noteq> []"
  using assms by (auto simp: validatePythonVersion_def rx_test_def version_format_def)

lemma version_char_plain:
  assumes "is_digit c \<or> c \<in> set ''.abrc''"
  shows "c \<noteq> CHR ''-''" and "\<not> is_space c"
  using assms by (auto simp: is_digit_def is_space_def)

lemma match_toolchain_version_no_hyphen:
  "CHR ''-'' \<notin> set s \<Longrightarrow> match_toolchain_version s = None"
  by (induction s) auto

lemma trim_line:
  assumes "s \<noteq> []" and "\<forall>c\<in>set s. \<not> is_space c"
  shows "trim (s @ [CHR 0x0A]) = s"
proof -
  from assms have h: "\<not> is_space (hd s)" and l: "\<not> is_space (last s)"
    by simp_all
  from assms(1) h have 1: "dropWhile is_space (s @ [CHR 0x0A]) = s @ [CHR 0x0A]"
    by (cases s) simp_all
  have nl: "is_space (CHR 0x0A)" by (simp add: is_space_def)
  from assms(1) l have 2: "dropWhile is_space (rev s) = rev s"
    by (cases "rev s") (simp_all add: last_rev [symmetric] hd_rev)
  show ?thesis
    unfolding trim_def 1 using nl 2 by simp
qed

text \<open>
  Claim C9. For every version string that \<open>validatePythonVersion\<close> accepts (with or
  without a patch component), when \<open>updatePythonVersionFile\<close> has written it to the
  pin file of the workspace, \<open>getPythonVersionFromFiles\<close> returns that very string, so
  what is read back has the same major.minor part as what was written.
\<close>

theorem version_pin_round_trip:
  assumes valid: "validatePythonVersion version"
    and root: "truthy (getWorkspaceRoot env)"
    and written: "updatePythonVersionFile (the (getWorkspaceRoot env)) version fs = Inr fs'"
  shows "getPythonVersionFromFiles env requires_python fs' = Some version
       \<and> map_option major_minor (getPythonVersionFromFiles env requires_python fs')
           = Some (major_minor version)"
proof -
  let ?p = "path_join (the (getWorkspaceRoot env)) ''.python-version''"
  from written have f: "files fs' ?p = Some (version @ [CHR 0x0A])"
    by (auto simp: updatePythonVersionFile_def Let_def split: if_splits)
  from valid have chars: "\<forall>c\<in>set version. is_digit c \<or> c \<in> set ''.abrc''"
    by (rule valid_version_chars)
  from valid have ne: "version \<noteq> []" by (rule valid_version_nonempty)
  from chars have "\<forall>c\<in>set version. \<not> is_space c"
    using version_char_plain(2) by blast
  with ne have t: "trim (version @ [CHR 0x0A]) = version" by (rule trim_line)
  from chars have "CHR ''-'' \<notin> set version"
    using version_char_plain(1) by blast
  then have m: "match_toolchain_version version = None"
    by (rule match_toolchain_version_no_hyphen)
  from root f t m ne have "getPythonVersionFromFiles env requires_python fs' = Some version"
    by (simp add: getPythonVersionFromFiles_def Let_def)
  then show ?thesis by simp
qed

theorem version_pin_round_trip_witness:
  "validatePythonVersion ''3.11.2'' \<and> validatePythonVersion ''3.11''
 \<and> truthy (getWorkspaceRoot \<lparr>getUVPath = ''uv'', getWorkspaceRoot = Some ''/w''\<rparr>)
 \<and> updatePythonVersionFile ''/w'' ''3.11.2'' \<lparr>files = Map.empty, writable = (\<lambda>p. True)\<rparr>
     = Inr \<lparr>files = [''/w/.python-version'' \<mapsto> ''3.11.2'' @ [CHR 0x0A]], writable = (\<lambda>p. True)\<rparr>
 \<and> getPythonVersionFromFiles \<lparr>getUVPath = ''uv'', getWorkspaceRoot = Some ''/w''\<rparr> (\<lambda>text. None)
       \<lparr>files = [''/w/.python-version'' \<mapsto> ''3.11.2'' @ [CHR 0x0A]], writable = (\<lambda>p. True)\<rparr>
     = Some ''3.11.2''
 \<and> major_minor ''3.11.2'' = ''3.11''
 \<and> getPythonVersionFromFiles \<lparr>getUVPath = ''uv'', getWorkspaceRoot = Some ''/w''\<rparr> (\<lambda>text. None)
       \<lparr>files = [''/w/.python-version'' \<mapsto> ''3.11'' @ [CHR 0x0A]], writable = (\<lambda>p. True)\<rparr>
     = Some ''3.11''"
proof -
  let ?env = "\<lparr>getUVPath = ''uv'', getWorkspaceRoot = Some ''/w''\<rparr>"
  let ?fs = "\<lparr>files = Map.empty, writable = (\<lambda>p. True)\<rparr>"
  have v1: "validatePythonVersion ''3.11.2''" and v2: "validatePythonVersion ''3.11''"
    by (simp_all add: validatePythonVersion_def rx_test_def version_format_def is_digit_def
                      is_char_def is_a_or_b_def)
  have r: "truthy (getWorkspaceRoot ?env)"
    by (simp add: truthy_def)
  have w1: "updatePythonVersionFile (the (getWorkspaceRoot ?env)) ''3.11.2'' ?fs
          = Inr \<lparr>files = [''/w/.python-version'' \<mapsto> ''3.11.2'' @ [CHR 0x0A]], writable = (\<lambda>p. True)\<rparr>"
    and w2: "updatePythonVersionFile (the (getWorkspaceRoot ?env)) ''3.11'' ?fs
          = Inr \<lparr>files = [''/w/.python-version'' \<mapsto> ''3.11'' @ [CHR 0x0A]], writable = (\<lambda>p. True)\<rparr>"
    by (simp_all add: updatePythonVersionFile_def path_join_def)
  have mm: "major_minor ''3.11.2'' = ''3.11''"
    by (simp add: major_minor_def)
  from version_pin_round_trip [OF v1 r w1, of "\<lambda>text. None"]
       version_pin_round_trip [OF v2 r w2, of "\<lambda>text. None"] v1 v2 r w1 mm
  show ?thesis by simp
qed

end
